theory Spec2Isabelle
  imports Main "HOL-Library.Word"
begin

unbundle bit_operations_syntax

section \<open>The seccomp syscall-interception supervisor\<close>

text \<open>
  A shallow embedding of the seccomp supervisor of
  \<^verbatim>\<open>src/internal/server/storage/utils.go\<close>: the C helpers of its cgo preamble
  (\<^verbatim>\<open>device_allowed\<close>, the arch/syscall table and its classifier, the response
  update), the policy compiler (\<^verbatim>\<open>seccompGetPolicyContent\<close>), the frame check, the
  per-syscall emulators and the dispatcher.

  Go's \<^verbatim>\<open>int\<close> and C's \<^verbatim>\<open>int\<close> results are modelled as \<open>int\<close> where only small
  errno values flow through them; the syscall arguments are 64-bit words and every
  narrowing conversion of the source (\<^verbatim>\<open>C.mode_t(..)\<close>, \<^verbatim>\<open>int32(..)\<close>,
  \<^verbatim>\<open>C.int(..)\<close>) is written out as \<open>ucast\<close> followed by \<open>sint\<close> or \<open>uint\<close>.
  Everything the supervisor asks of the kernel, of \<^verbatim>\<open>/proc\<close>, of the helper process
  or of packages outside this file is a field of the record \<open>host\<close>.
\<close>

subsection \<open>Constants of the platform headers\<close>

text \<open>The errno values of \<^verbatim>\<open>asm-generic/errno.h\<close>.\<close>

definition EPERM :: int where "EPERM = 1"
definition EIO :: int where "EIO = 5"
definition ENOMEM :: int where "ENOMEM = 12"
definition EINVAL :: int where "EINVAL = 22"
definition EFBIG :: int where "EFBIG = 27"
definition ENOANO :: int where "ENOANO = 55"
definition ENOMEDIUM :: int where "ENOMEDIUM = 123"

text \<open>\<^verbatim>\<open>S_IFMT\<close> is octal 0170000 and \<^verbatim>\<open>S_IFCHR\<close> is octal 0020000.\<close>

definition S_IFMT :: "32 word" where "S_IFMT = 61440"
definition S_IFCHR :: "32 word" where "S_IFCHR = 8192"

definition AT_FDCWD :: "32 word" where "AT_FDCWD = - 100"

definition PathMax :: nat where "PathMax = 4096"

text \<open>
  \<^verbatim>\<open>makedev\<close> of glibc's \<^verbatim>\<open>sys/sysmacros.h\<close> (the header is not part of the
  repository): the low 12 bits of the major number go to bits 8..19, its upper bits to
  bits 44..63, the low 8 bits of the minor number stay, its upper bits go to bits 20..43.
\<close>

definition makedev :: "32 word \<Rightarrow> 32 word \<Rightarrow> 64 word" where
  "makedev major minor =
     push_bit 8 (ucast (major AND 0x00000fff))
     OR push_bit 32 (ucast (major AND 0xfffff000))
     OR ucast (minor AND 0x000000ff)
     OR push_bit 12 (ucast (minor AND 0xffffff00))"

text \<open>\<^verbatim>\<open>unix.Major\<close> and \<^verbatim>\<open>unix.Minor\<close> of \<^verbatim>\<open>golang.org/x/sys/unix\<close>.\<close>

definition Major :: "64 word \<Rightarrow> 32 word" where
  "Major dev = ucast (drop_bit 8 (dev AND 0x00000000000fff00))
               OR ucast (drop_bit 32 (dev AND 0xfffff00000000000))"

definition Minor :: "64 word \<Rightarrow> 32 word" where
  "Minor dev = ucast (dev AND 0x00000000000000ff)
               OR ucast (drop_bit 12 (dev AND 0x00000ffffff00000))"

subsection \<open>The kernel's notification structures\<close>

record seccomp_data =
  nr :: "32 word"
  arch :: "32 word"
  instruction_pointer :: "64 word"
  arg0 :: "64 word"
  arg1 :: "64 word"
  arg2 :: "64 word"
  arg3 :: "64 word"
  arg4 :: "64 word"
  arg5 :: "64 word"

record seccomp_notif =
  req_id :: "64 word"
  req_pid :: "32 word"
  req_flags :: "32 word"
  req_data :: seccomp_data

text \<open>\<open>resp_val\<close> is an \<^verbatim>\<open>__s64\<close> and \<open>resp_error\<close> an \<^verbatim>\<open>__s32\<close>; the supervisor
  only stores small values in them.\<close>

record seccomp_notif_resp =
  resp_id :: "64 word"
  resp_val :: int
  resp_error :: int
  resp_flags :: "32 word"

record seccomp_notif_sizes =
  sz_seccomp_notif :: "16 word"
  sz_seccomp_notif_resp :: "16 word"
  sz_seccomp_data :: "16 word"

record seccomp_notify_proxy_msg =
  msg_reserved :: "64 word"
  monitor_pid :: "32 word"
  init_pid :: "32 word"
  msg_sizes :: seccomp_notif_sizes
  cookie_len :: "64 word"

subsection \<open>The device allow-set\<close>

text \<open>\<^verbatim>\<open>device_allowed(dev_t dev, mode_t mode)\<close>: 0 for the character devices of the
  allow-set, \<^verbatim>\<open>-EPERM\<close> for everything else.\<close>

definition device_allowed :: "64 word \<Rightarrow> 32 word \<Rightarrow> int" where
  "device_allowed dev mode =
     (if mode AND S_IFMT = S_IFCHR then
        (if dev = makedev 0 0 then 0
         else if dev = makedev 5 1 then 0
         else if dev = makedev 1 7 then 0
         else if dev = makedev 1 3 then 0
         else if dev = makedev 1 8 then 0
         else if dev = makedev 5 0 then 0
         else if dev = makedev 1 9 then 0
         else if dev = makedev 1 5 then 0
         else - EPERM)
      else - EPERM)"

subsection \<open>The arch/syscall table and its classifier\<close>

record incus_seccomp_data_arch =
  row_arch :: "32 word"
  nr_mknod :: "32 word"
  nr_mknodat :: "32 word"
  nr_setxattr :: "32 word"
  nr_mount :: "32 word"
  nr_bpf :: "32 word"
  nr_sched_setscheduler :: "32 word"
  nr_sysinfo :: "32 word"

definition INCUS_SECCOMP_NOTIFY_MKNOD :: int where "INCUS_SECCOMP_NOTIFY_MKNOD = 0"
definition INCUS_SECCOMP_NOTIFY_MKNODAT :: int where "INCUS_SECCOMP_NOTIFY_MKNODAT = 1"
definition INCUS_SECCOMP_NOTIFY_SETXATTR :: int where "INCUS_SECCOMP_NOTIFY_SETXATTR = 2"
definition INCUS_SECCOMP_NOTIFY_MOUNT :: int where "INCUS_SECCOMP_NOTIFY_MOUNT = 3"
definition INCUS_SECCOMP_NOTIFY_BPF :: int where "INCUS_SECCOMP_NOTIFY_BPF = 4"
definition INCUS_SECCOMP_NOTIFY_SCHED_SETSCHEDULER :: int where
  "INCUS_SECCOMP_NOTIFY_SCHED_SETSCHEDULER = 5"
definition INCUS_SECCOMP_NOTIFY_SYSINFO :: int where "INCUS_SECCOMP_NOTIFY_SYSINFO = 6"

definition mk_row ::
  "32 word \<Rightarrow> 32 word \<Rightarrow> 32 word \<Rightarrow> 32 word \<Rightarrow> 32 word \<Rightarrow> 32 word \<Rightarrow> 32 word \<Rightarrow> 32 word
   \<Rightarrow> incus_seccomp_data_arch" where
  "mk_row a k1 k2 k3 k4 k5 k6 k7 =
     \<lparr>row_arch = a, nr_mknod = k1, nr_mknodat = k2, nr_setxattr = k3, nr_mount = k4,
      nr_bpf = k5, nr_sched_setscheduler = k6, nr_sysinfo = k7\<rparr>"

text \<open>The \<^verbatim>\<open>AUDIT_ARCH_*\<close> values of \<^verbatim>\<open>linux/audit.h\<close> (not part of the repository):
  the ELF machine number, or-ed with \<^verbatim>\<open>__AUDIT_ARCH_64BIT\<close> (0x80000000),
  \<^verbatim>\<open>__AUDIT_ARCH_LE\<close> (0x40000000) and, for the MIPS N32 ABI, 0x20000000.\<close>

definition AUDIT_ARCH_X86_64 :: "32 word" where "AUDIT_ARCH_X86_64 = 0xC000003E"
definition AUDIT_ARCH_I386 :: "32 word" where "AUDIT_ARCH_I386 = 0x40000003"
definition AUDIT_ARCH_AARCH64 :: "32 word" where "AUDIT_ARCH_AARCH64 = 0xC00000B7"
definition AUDIT_ARCH_ARM :: "32 word" where "AUDIT_ARCH_ARM = 0x40000028"
definition AUDIT_ARCH_ARMEB :: "32 word" where "AUDIT_ARCH_ARMEB = 0x00000028"
definition AUDIT_ARCH_S390 :: "32 word" where "AUDIT_ARCH_S390 = 0x00000016"
definition AUDIT_ARCH_S390X :: "32 word" where "AUDIT_ARCH_S390X = 0x80000016"
definition AUDIT_ARCH_PPC :: "32 word" where "AUDIT_ARCH_PPC = 0x00000014"
definition AUDIT_ARCH_PPC64 :: "32 word" where "AUDIT_ARCH_PPC64 = 0x80000015"
definition AUDIT_ARCH_PPC64LE :: "32 word" where "AUDIT_ARCH_PPC64LE = 0xC0000015"
definition AUDIT_ARCH_RISCV64 :: "32 word" where "AUDIT_ARCH_RISCV64 = 0xC00000F3"
definition AUDIT_ARCH_SPARC :: "32 word" where "AUDIT_ARCH_SPARC = 0x00000002"
definition AUDIT_ARCH_SPARC64 :: "32 word" where "AUDIT_ARCH_SPARC64 = 0x8000002B"
definition AUDIT_ARCH_MIPS :: "32 word" where "AUDIT_ARCH_MIPS = 0x00000008"
definition AUDIT_ARCH_MIPSEL :: "32 word" where "AUDIT_ARCH_MIPSEL = 0x40000008"
definition AUDIT_ARCH_MIPS64 :: "32 word" where "AUDIT_ARCH_MIPS64 = 0x80000008"
definition AUDIT_ARCH_MIPS64N32 :: "32 word" where "AUDIT_ARCH_MIPS64N32 = 0xA0000008"
definition AUDIT_ARCH_MIPSEL64 :: "32 word" where "AUDIT_ARCH_MIPSEL64 = 0xC0000008"
definition AUDIT_ARCH_MIPSEL64N32 :: "32 word" where "AUDIT_ARCH_MIPSEL64N32 = 0xE0000008"
definition AUDIT_ARCH_LOONGARCH64 :: "32 word" where "AUDIT_ARCH_LOONGARCH64 = 0xC0000102"

text \<open>The table as it is compiled when the headers define every \<^verbatim>\<open>AUDIT_ARCH_*\<close>
  macro the source tests with \<^verbatim>\<open>#ifdef\<close>. The classifier below takes the table as
  an argument, so what is proved of it holds for every subset of these rows too.\<close>

definition seccomp_notify_syscall_table :: "incus_seccomp_data_arch list" where
  "seccomp_notify_syscall_table =
    [ mk_row (- 1) 0 1 2 3 4 5 6,
      mk_row AUDIT_ARCH_X86_64 133 259 188 165 321 144 99,
      mk_row AUDIT_ARCH_I386 14 297 226 21 357 156 116,
      mk_row AUDIT_ARCH_AARCH64 (- 1) 33 5 40 280 119 179,
      mk_row AUDIT_ARCH_ARM 14 324 226 21 386 156 116,
      mk_row AUDIT_ARCH_ARMEB 14 324 226 21 386 156 116,
      mk_row AUDIT_ARCH_S390 14 290 224 21 351 156 116,
      mk_row AUDIT_ARCH_S390X 14 290 224 21 351 156 116,
      mk_row AUDIT_ARCH_PPC 14 288 209 21 361 156 116,
      mk_row AUDIT_ARCH_PPC64 14 288 209 21 361 156 116,
      mk_row AUDIT_ARCH_PPC64LE 14 288 209 21 361 156 116,
      mk_row AUDIT_ARCH_RISCV64 (- 1) 33 5 40 280 119 179,
      mk_row AUDIT_ARCH_SPARC 14 286 169 167 349 243 214,
      mk_row AUDIT_ARCH_SPARC64 14 286 169 167 349 243 214,
      mk_row AUDIT_ARCH_MIPS 14 290 224 21 (- 1) 141 4116,
      mk_row AUDIT_ARCH_MIPSEL 14 290 224 21 (- 1) 141 4116,
      mk_row AUDIT_ARCH_MIPS64 131 249 180 160 (- 1) 141 5097,
      mk_row AUDIT_ARCH_MIPS64N32 131 253 180 160 (- 1) 141 4116,
      mk_row AUDIT_ARCH_MIPSEL64 131 249 180 160 (- 1) 141 5097,
      mk_row AUDIT_ARCH_MIPSEL64N32 131 253 180 160 (- 1) 141 4116,
      mk_row AUDIT_ARCH_LOONGARCH64 (- 1) 33 5 40 280 119 179 ]"

text \<open>The \<^verbatim>\<open>for\<close> loop of \<^verbatim>\<open>seccomp_notify_get_syscall\<close>: rows of another arch are
  skipped (\<^verbatim>\<open>continue\<close>); in the first row of the request's arch the slots are compared
  with \<^verbatim>\<open>req->data.nr\<close> in the order of the source, and the loop ends there
  (\<^verbatim>\<open>break\<close>). Both comparisons are between 32-bit values: \<^verbatim>\<open>entry->arch\<close> is
  converted to the unsigned type of \<^verbatim>\<open>req->data.arch\<close>, and \<^verbatim>\<open>req->data.nr\<close> is an
  \<^verbatim>\<open>int\<close> like the slots.\<close>

fun seccomp_notify_scan :: "incus_seccomp_data_arch list \<Rightarrow> seccomp_data \<Rightarrow> int" where
  "seccomp_notify_scan [] d = - EINVAL"
| "seccomp_notify_scan (entry # rest) d =
     (if row_arch entry \<noteq> arch d then seccomp_notify_scan rest d
      else if nr_mknod entry = nr d then INCUS_SECCOMP_NOTIFY_MKNOD
      else if nr_mknodat entry = nr d then INCUS_SECCOMP_NOTIFY_MKNODAT
      else if nr_setxattr entry = nr d then INCUS_SECCOMP_NOTIFY_SETXATTR
      else if nr_mount entry = nr d then INCUS_SECCOMP_NOTIFY_MOUNT
      else if nr_bpf entry = nr d then INCUS_SECCOMP_NOTIFY_BPF
      else if nr_sched_setscheduler entry = nr d then INCUS_SECCOMP_NOTIFY_SCHED_SETSCHEDULER
      else if nr_sysinfo entry = nr d then INCUS_SECCOMP_NOTIFY_SYSINFO
      else - EINVAL)"

text \<open>\<^verbatim>\<open>seccomp_notify_get_syscall\<close> first initialises the response from the request,
  then classifies. It returns the logical syscall (or \<^verbatim>\<open>-EINVAL\<close>) and the response.\<close>

definition seccomp_notify_get_syscall ::
  "incus_seccomp_data_arch list \<Rightarrow> seccomp_notif \<Rightarrow> seccomp_notif_resp
   \<Rightarrow> int \<times> seccomp_notif_resp" where
  "seccomp_notify_get_syscall tbl req resp =
     (seccomp_notify_scan tbl (req_data req),
      resp\<lparr>resp_id := req_id req, resp_flags := req_flags req, resp_val := 0,
           resp_error := 0\<rparr>)"

definition seccomp_notify_update_response ::
  "seccomp_notif_resp \<Rightarrow> int \<Rightarrow> 32 word \<Rightarrow> seccomp_notif_resp" where
  "seccomp_notify_update_response resp new_neg_errno flags =
     resp\<lparr>resp_error := new_neg_errno, resp_flags := resp_flags resp OR flags\<rparr>"

definition seccompUserNotifFlagContinue :: "32 word" where
  "seccompUserNotifFlagContinue = 0x00000001"

subsection \<open>Configuration, daemon state and the instance interface\<close>

text \<open>An expanded configuration is Go's \<^verbatim>\<open>map[string]string\<close>. \<open>cfg config k\<close> is
  \<^verbatim>\<open>config[k]\<close>, the empty string for a missing key; the two-valued form
  \<^verbatim>\<open>v, ok := config[k]\<close> is the map itself.\<close>

type_synonym config = "string \<rightharpoonup> string"

definition cfg :: "config \<Rightarrow> string \<Rightarrow> string" where
  "cfg config k = (case config k of None \<Rightarrow> [] | Some v \<Rightarrow> v)"

text \<open>The fields of \<^verbatim>\<open>state.State.OS\<close> the supervisor reads. \<open>LXCFeatures\<close> is a
  \<^verbatim>\<open>map[string]bool\<close>, false for a missing key.\<close>

record State =
  SeccompListener :: bool
  SeccompListenerContinue :: bool
  SeccompListenerAddfd :: bool
  RunningInUserNS :: bool
  PidFds :: bool
  PidFdsThread :: bool
  LXCFeatures :: "string \<Rightarrow> bool"

text \<open>\<^verbatim>\<open>idmap.Set\<close> (package \<^verbatim>\<open>shared/idmap\<close>, not among the sources): its two
  shifting methods are taken as they are.\<close>

record idmap_set =
  ShiftFromNS :: "int \<Rightarrow> int \<Rightarrow> int \<times> int"
  ShiftIntoNS :: "int \<Rightarrow> int \<Rightarrow> int \<times> int"

text \<open>The \<^verbatim>\<open>Instance\<close> interface. A method that returns an error next to its value is
  an \<open>option\<close> (\<open>None\<close> for the error); \<open>DiskIdmap\<close> can also return a nil set.
  \<open>InsertSeccompUnixDevice\<close> is true when the callback returns no error.\<close>

type_synonym Device = "(string \<times> string) list"

record Instance =
  Name :: string
  ExpandedConfig :: config
  IsPrivileged :: bool
  Architecture :: int
  CurrentIdmap :: "idmap_set option"
  DiskIdmap :: "idmap_set option option"
  IdmappedStorage :: "string \<Rightarrow> string \<Rightarrow> string"
  InsertSeccompUnixDevice :: "string \<Rightarrow> Device \<Rightarrow> int \<Rightarrow> bool"

text \<open>Functions of packages that are not among the sources (\<^verbatim>\<open>shared/util\<close>,
  \<^verbatim>\<open>shared/osarch\<close>, \<^verbatim>\<open>go-lxc\<close>), taken as parameters: \<open>NewContainer\<close> is true when
  the test container loads, \<open>SetConfigItem\<close> is the text of the error, if any.\<close>

record packages =
  IsTrue :: "string \<Rightarrow> bool"
  IsFalseOrEmpty :: "string \<Rightarrow> bool"
  ArchitectureName :: "int \<Rightarrow> string + string"
  NewContainer :: bool
  SetConfigItem :: "string option"

subsection \<open>The policy compiler\<close>

definition seccompHeader :: string where
  "seccompHeader =
     ''2\<newline>''"

definition defaultSeccompPolicy :: string where
  "defaultSeccompPolicy =
     ''reject_force_umount  # comment this to allow umount -f;  not recommended\<newline>'' @
     ''[all]\<newline>'' @
     ''kexec_load errno 38\<newline>'' @
     ''open_by_handle_at errno 38\<newline>'' @
     ''init_module errno 38\<newline>'' @
     ''finit_module errno 38\<newline>'' @
     ''delete_module errno 38\<newline>''"

definition seccompNotifyDisallow :: string where
  "seccompNotifyDisallow =
     ''seccomp errno 22 [1,2146435072,SCMP_CMP_MASKED_EQ,2146435072]\<newline>'' @
     ''seccomp errno 22 [1,8,SCMP_CMP_MASKED_EQ,8]\<newline>''"

definition seccompNotifyMknod :: string where
  "seccompNotifyMknod =
     ''mknod notify [1,8192,SCMP_CMP_MASKED_EQ,61440]\<newline>'' @
     ''mknod notify [1,24576,SCMP_CMP_MASKED_EQ,61440]\<newline>'' @
     ''mknodat notify [2,8192,SCMP_CMP_MASKED_EQ,61440]\<newline>'' @
     ''mknodat notify [2,24576,SCMP_CMP_MASKED_EQ,61440]\<newline>''"

definition seccompNotifySetxattr :: string where
  "seccompNotifySetxattr =
     ''setxattr notify [3,1,SCMP_CMP_EQ]\<newline>''"

definition seccompNotifySchedSetscheduler :: string where
  "seccompNotifySchedSetscheduler =
     ''sched_setscheduler notify\<newline>''"

definition seccompNotifySysinfo :: string where
  "seccompNotifySysinfo =
     ''sysinfo notify\<newline>''"

definition seccompBlockNewMountAPI :: string where
  "seccompBlockNewMountAPI =
     ''fsopen errno 38\<newline>'' @
     ''fsconfig errno 38\<newline>'' @
     ''fsinfo errno 38\<newline>'' @
     ''fsmount errno 38\<newline>'' @
     ''fspick errno 38\<newline>'' @
     ''open_tree errno 38\<newline>'' @
     ''move_mount errno 38\<newline>'' @
     ''openat2 errno 38\<newline>''"

definition seccompNotifyMount :: string where
  "seccompNotifyMount =
     ''mount notify [3,0,SCMP_CMP_MASKED_EQ,18446744070422410016]\<newline>''"

definition seccompNotifyBpf :: string where
  "seccompNotifyBpf =
     ''bpf notify [0,5,SCMP_CMP_EQ]\<newline>'' @
     ''bpf notify [0,8,SCMP_CMP_EQ]\<newline>'' @
     ''bpf notify [0,9,SCMP_CMP_EQ]\<newline>''"

definition compatBlockingPolicy :: "string \<Rightarrow> string" where
  "compatBlockingPolicy arch_name =
     ''['' @ arch_name @ '']\<newline>'' @
     ''compat_sys_rt_sigaction errno 38\<newline>'' @
     ''stub_x32_rt_sigreturn errno 38\<newline>'' @
     ''compat_sys_ioctl errno 38\<newline>'' @
     ''compat_sys_readv errno 38\<newline>'' @
     ''compat_sys_writev errno 38\<newline>'' @
     ''compat_sys_recvfrom errno 38\<newline>'' @
     ''compat_sys_sendmsg errno 38\<newline>'' @
     ''compat_sys_recvmsg errno 38\<newline>'' @
     ''stub_x32_execve errno 38\<newline>'' @
     ''compat_sys_ptrace errno 38\<newline>'' @
     ''compat_sys_rt_sigpending errno 38\<newline>'' @
     ''compat_sys_rt_sigtimedwait errno 38\<newline>'' @
     ''compat_sys_rt_sigqueueinfo errno 38\<newline>'' @
     ''compat_sys_sigaltstack errno 38\<newline>'' @
     ''compat_sys_timer_create errno 38\<newline>'' @
     ''compat_sys_mq_notify errno 38\<newline>'' @
     ''compat_sys_kexec_load errno 38\<newline>'' @
     ''compat_sys_waitid errno 38\<newline>'' @
     ''compat_sys_set_robust_list errno 38\<newline>'' @
     ''compat_sys_get_robust_list errno 38\<newline>'' @
     ''compat_sys_vmsplice errno 38\<newline>'' @
     ''compat_sys_move_pages errno 38\<newline>'' @
     ''compat_sys_preadv64 errno 38\<newline>'' @
     ''compat_sys_pwritev64 errno 38\<newline>'' @
     ''compat_sys_rt_tgsigqueueinfo errno 38\<newline>'' @
     ''compat_sys_recvmmsg errno 38\<newline>'' @
     ''compat_sys_sendmmsg errno 38\<newline>'' @
     ''compat_sys_process_vm_readv errno 38\<newline>'' @
     ''compat_sys_process_vm_writev errno 38\<newline>'' @
     ''compat_sys_setsockopt errno 38\<newline>'' @
     ''compat_sys_getsockopt errno 38\<newline>'' @
     ''compat_sys_io_setup errno 38\<newline>'' @
     ''compat_sys_io_submit errno 38\<newline>'' @
     ''stub_x32_execveat errno 38\<newline>''"

subsubsection \<open>Capability probes\<close>

text \<open>Each probe returns the error, \<open>None\<close> for \<^verbatim>\<open>nil\<close>.\<close>

definition lxcSupportSeccompNotify :: "State \<Rightarrow> packages \<Rightarrow> string option" where
  "lxcSupportSeccompNotify state p =
     (if \<not> SeccompListener state then Some ''Seccomp notify not supported''
      else if \<not> LXCFeatures state ''seccomp_notify'' then
        Some ''LXC doesn't support seccomp notify''
      else if \<not> NewContainer p then Some ''Failed to load seccomp notify test container''
      else case SetConfigItem p of
             Some err \<Rightarrow> Some (''LXC doesn't support notify proxy: '' @ err)
           | None \<Rightarrow> None)"

definition lxcSupportSeccompNotifyContinue :: "State \<Rightarrow> packages \<Rightarrow> string option" where
  "lxcSupportSeccompNotifyContinue state p =
     (case lxcSupportSeccompNotify state p of
        Some err \<Rightarrow> Some err
      | None \<Rightarrow>
          if \<not> SeccompListenerContinue state then
            Some ''Seccomp notify doesn't support continuing syscalls''
          else None)"

definition lxcSupportSeccompNotifyAddfd :: "State \<Rightarrow> packages \<Rightarrow> string option" where
  "lxcSupportSeccompNotifyAddfd state p =
     (case lxcSupportSeccompNotify state p of
        Some err \<Rightarrow> Some err
      | None \<Rightarrow>
          if \<not> SeccompListenerContinue state then
            Some ''Seccomp notify doesn't support continuing syscalls''
          else if \<not> SeccompListenerAddfd state then
            Some ''Seccomp notify doesn't support adding file descriptors''
          else None)"

subsubsection \<open>\<^verbatim>\<open>InstanceNeedsIntercept\<close>\<close>

text \<open>The map from interception key to the probe it needs.\<close>

definition intercept_keys :: "(string \<times> (State \<Rightarrow> packages \<Rightarrow> string option)) list" where
  "intercept_keys =
    [ (''security.syscalls.intercept.mknod'', lxcSupportSeccompNotify),
      (''security.syscalls.intercept.sched_setscheduler'', lxcSupportSeccompNotify),
      (''security.syscalls.intercept.setxattr'', lxcSupportSeccompNotify),
      (''security.syscalls.intercept.sysinfo'', lxcSupportSeccompNotify),
      (''security.syscalls.intercept.mount'', lxcSupportSeccompNotifyContinue),
      (''security.syscalls.intercept.bpf'', lxcSupportSeccompNotifyAddfd) ]"

text \<open>The \<^verbatim>\<open>for key, check := range keys\<close> loop, over the entries still to visit and
  the current \<^verbatim>\<open>needed\<close>. Go visits the entries of a map in an order it does not
  specify; the loop is therefore defined for every list of entries.\<close>

fun needs_intercept_range ::
  "State \<Rightarrow> packages \<Rightarrow> config \<Rightarrow> (string \<times> (State \<Rightarrow> packages \<Rightarrow> string option)) list
   \<Rightarrow> bool \<Rightarrow> bool \<times> string option" where
  "needs_intercept_range s p config [] needed = (needed, None)"
| "needs_intercept_range s p config ((key, check) # rest) needed =
     (if IsFalseOrEmpty p (cfg config key) then needs_intercept_range s p config rest needed
      else case check s p of
             Some err \<Rightarrow> (needed, Some err)
           | None \<Rightarrow> needs_intercept_range s p config rest True)"

text \<open>\<open>keys\<close> is the order in which the map is visited.\<close>

definition InstanceNeedsIntercept_in ::
  "(string \<times> (State \<Rightarrow> packages \<Rightarrow> string option)) list
   \<Rightarrow> State \<Rightarrow> packages \<Rightarrow> Instance \<Rightarrow> bool \<times> string option" where
  "InstanceNeedsIntercept_in keys s p c =
     (if IsPrivileged c then (False, None)
      else if RunningInUserNS s then (False, None)
      else needs_intercept_range s p (ExpandedConfig c) keys False)"

subsubsection \<open>\<^verbatim>\<open>seccompGetPolicyContent\<close>\<close>

text \<open>The result is \<open>Inr\<close> the profile text or \<open>Inl\<close> the error. \<open>keys\<close> is the order in
  which \<^verbatim>\<open>InstanceNeedsIntercept\<close> visits its map.\<close>

definition seccompGetPolicyContent_in ::
  "(string \<times> (State \<Rightarrow> packages \<Rightarrow> string option)) list
   \<Rightarrow> State \<Rightarrow> packages \<Rightarrow> Instance \<Rightarrow> string + string" where
  "seccompGetPolicyContent_in keys s p c =
    (let config = ExpandedConfig c;
         raw = cfg config ''raw.seccomp''
     in
     if raw \<noteq> [] then Inr raw
     else
       let policy = seccompHeader;
           allowlist = cfg config ''security.syscalls.allow'';
           allowlist =
             (if allowlist = [] then cfg config ''security.syscalls.whitelist'' else allowlist);
           policy =
             (if allowlist \<noteq> [] then
                (if LXCFeatures s ''seccomp_allow_deny_syntax''
                 then policy @ ''allowlist\<newline>[all]\<newline>''
                 else policy @ ''whitelist\<newline>[all]\<newline>'') @ allowlist
              else
                let policy =
                      (if LXCFeatures s ''seccomp_allow_deny_syntax''
                       then policy @ ''denylist\<newline>[all]\<newline>''
                       else policy @ ''blacklist\<newline>[all]\<newline>'');
                    defaultFlag =
                      (case config ''security.syscalls.deny_default'' of
                         Some v \<Rightarrow> Some v
                       | None \<Rightarrow> config ''security.syscalls.blacklist_default'')
                in case defaultFlag of
                     None \<Rightarrow> policy @ defaultSeccompPolicy
                   | Some v \<Rightarrow> if IsTrue p v then policy @ defaultSeccompPolicy else policy)
       in
       case InstanceNeedsIntercept_in keys s p c of
         (_, Some err) \<Rightarrow> Inl err
       | (ok, None) \<Rightarrow>
           let policy =
                 (if ok then
                    let policy = policy @ seccompNotifyDisallow;
                        policy =
                          (if IsTrue p (cfg config ''security.syscalls.intercept.mknod'')
                           then policy @ seccompNotifyMknod else policy);
                        policy =
                          (if IsTrue p (cfg config ''security.syscalls.intercept.sched_setscheduler'')
                           then policy @ seccompNotifySchedSetscheduler else policy);
                        policy =
                          (if IsTrue p (cfg config ''security.syscalls.intercept.setxattr'')
                           then policy @ seccompNotifySetxattr else policy);
                        policy =
                          (if IsTrue p (cfg config ''security.syscalls.intercept.sysinfo'')
                           then policy @ seccompNotifySysinfo else policy);
                        policy =
                          (if IsTrue p (cfg config ''security.syscalls.intercept.mount'')
                           then policy @ seccompNotifyMount @ seccompBlockNewMountAPI
                           else policy);
                        policy =
                          (if IsTrue p (cfg config ''security.syscalls.intercept.bpf'')
                           then policy @ seccompNotifyBpf else policy)
                    in policy
                  else policy)
           in
           if allowlist \<noteq> [] then Inr policy
           else
             let compat =
                   (case config ''security.syscalls.deny_compat'' of
                      Some v \<Rightarrow> v
                    | None \<Rightarrow> cfg config ''security.syscalls.blacklist_compat'');
                 compat_result =
                   (if IsTrue p compat then
                      (case ArchitectureName p (Architecture c) of
                         Inl err \<Rightarrow> Inl err
                       | Inr arch_name \<Rightarrow> Inr (policy @ compatBlockingPolicy arch_name))
                    else Inr policy)
             in
             case compat_result of
               Inl err \<Rightarrow> Inl err
             | Inr policy \<Rightarrow>
                 let denylist =
                       (case config ''security.syscalls.deny'' of
                          Some v \<Rightarrow> v
                        | None \<Rightarrow> cfg config ''security.syscalls.blacklist'')
                 in Inr (if denylist \<noteq> [] then policy @ denylist else policy))"

text \<open>The functions of the source, visiting the keys in the order they are written.\<close>

definition InstanceNeedsIntercept :: "State \<Rightarrow> packages \<Rightarrow> Instance \<Rightarrow> bool \<times> string option" where
  "InstanceNeedsIntercept = InstanceNeedsIntercept_in intercept_keys"

definition seccompGetPolicyContent :: "State \<Rightarrow> packages \<Rightarrow> Instance \<Rightarrow> string + string" where
  "seccompGetPolicyContent = seccompGetPolicyContent_in intercept_keys"

subsection \<open>Formatting and parsing of the Go library\<close>

text \<open>\<^verbatim>\<open>fmt.Sprintf("%d", n)\<close> and \<^verbatim>\<open>fmt.Sprintf("%#o", n)\<close>.\<close>

definition digit_char :: "nat \<Rightarrow> char" where
  "digit_char n = ''0123456789'' ! n"

fun show_nat :: "nat \<Rightarrow> string" where
  "show_nat n = (if n < 10 then [digit_char n] else show_nat (n div 10) @ [digit_char (n mod 10)])"

definition show_int :: "int \<Rightarrow> string" where
  "show_int i = (if i < 0 then CHR ''-'' # show_nat (nat (- i)) else show_nat (nat i))"

fun octal_digits :: "nat \<Rightarrow> string" where
  "octal_digits n = (if n < 8 then [digit_char n] else octal_digits (n div 8) @ [digit_char (n mod 8)])"

definition show_octal_alt :: "nat \<Rightarrow> string" where
  "show_octal_alt n = (if n = 0 then ''0'' else CHR ''0'' # octal_digits n)"

text \<open>\<^verbatim>\<open>strconv.Atoi\<close>: an optional sign, then at least one decimal digit and nothing
  else; \<open>None\<close> is the syntax error or the range error of a value outside 64 bits.\<close>

definition is_digit :: "char \<Rightarrow> bool" where
  "is_digit c = (48 \<le> (of_char c :: nat) \<and> (of_char c :: nat) \<le> 57)"

definition digits_value :: "string \<Rightarrow> nat" where
  "digits_value ds = foldl (\<lambda>acc c. 10 * acc + ((of_char c :: nat) - 48)) 0 ds"

definition Atoi :: "string \<Rightarrow> int option" where
  "Atoi s =
     (let neg = (case s of c # _ \<Rightarrow> c = CHR ''-'' | [] \<Rightarrow> False);
          ds = (case s of c # rest \<Rightarrow> if c = CHR ''-'' \<or> c = CHR ''+'' then rest else s | [] \<Rightarrow> [])
      in if ds = [] then None
         else if list_all is_digit ds then
           (let v = (if neg then - int (digits_value ds) else int (digits_value ds))
            in if v < - (2 ^ 63) then None else if 2 ^ 63 \<le> v then None else Some v)
         else None)"

text \<open>Negation of a Go \<^verbatim>\<open>int\<close> (64 bits): the least value is its own negation.\<close>

definition neg_int :: "int \<Rightarrow> int" where
  "neg_int i = (if i = - (2 ^ 63) then i else - i)"

text \<open>The conversion \<^verbatim>\<open>C.int(errno)\<close> of a Go \<^verbatim>\<open>int\<close>: the low 32 bits, signed.\<close>

definition C_int :: "int \<Rightarrow> int" where
  "C_int i = sint (word_of_int i :: 32 word)"

subsection \<open>Buffers read from the target's memory\<close>

text \<open>Bytes are characters. \<open>read_into buf bytes\<close> is a buffer after a \<^verbatim>\<open>pread\<close> that
  stored \<open>bytes\<close> at its start: a short read leaves the rest of the buffer as it was.
  \<^verbatim>\<open>C.GoString\<close> stops at the first NUL byte (the model also stops at the end of the
  buffer).\<close>

definition NUL :: char where "NUL = CHR 0x00"

definition zeroed :: "nat \<Rightarrow> string" where
  "zeroed n = replicate n NUL"

definition read_into :: "string \<Rightarrow> string \<Rightarrow> string" where
  "read_into buf bytes = take (length buf) bytes @ drop (length bytes) buf"

definition GoString :: "string \<Rightarrow> string" where
  "GoString buf = takeWhile (\<lambda>c. c \<noteq> NUL) buf"

subsection \<open>The supervisor's frame and its environment\<close>

text \<open>\<^verbatim>\<open>Iovec\<close>: the peer's pid, the three file descriptors received with the frame and
  the three structures of the frame (the cookie is never read).\<close>

record Iovec =
  ucred_pid :: int
  memFd :: int
  procFd :: int
  notifyFd :: int
  msg :: seccomp_notify_proxy_msg
  req :: seccomp_notif
  resp :: seccomp_notif_resp

text \<open>What the emulators ask of the host:
  \<^item> \<open>TaskIDs pid\<close>: the result of \<^verbatim>\<open>TaskIDs\<close>, which parses \<^verbatim>\<open>/proc/<pid>/status\<close>
    (uid, gid, fsuid, fsgid), \<open>None\<close> for its error;
  \<^item> \<open>PidFdOpen pid\<close>: whether \<^verbatim>\<open>linux.PidFdOpen\<close> succeeds;
  \<^item> \<open>pread off n\<close>: the bytes \<^verbatim>\<open>pread(memFd, buf, n, off)\<close> stores, \<open>None\<close> when it
    fails;
  \<^item> \<open>make_bytes n\<close>: whether \<^verbatim>\<open>make([]byte, n)\<close> can allocate \<open>n > 0\<close> bytes;
  \<^item> \<open>RunCommandSplit argv\<close>: the helper process run with the arguments \<open>argv\<close> (after
    the path of the executable): \<open>None\<close> when it exits with status 0, otherwise what it
    wrote to its error stream;
  \<^item> \<open>PathExists\<close>, \<open>PidfdSendSignal\<close> (true when the signal is delivered),
    \<open>FindTGID\<close> (\<open>None\<close> for its error).\<close>

record host =
  TaskIDs :: "int \<Rightarrow> (int \<times> int \<times> int \<times> int) option"
  PidFdOpen :: "int \<Rightarrow> bool"
  pread :: "64 word \<Rightarrow> nat \<Rightarrow> string option"
  make_bytes :: "nat \<Rightarrow> bool"
  RunCommandSplit :: "string list \<Rightarrow> string option"
  PathExists :: "string \<Rightarrow> bool"
  PidfdSendSignal :: bool
  FindTGID :: "int option"

text \<open>What an emulator has done when it returns: the value it returns, the response
  structure as it has left it, the helper invocations (their arguments), the devices
  handed to \<^verbatim>\<open>InsertSeccompUnixDevice\<close> and the writes to the target's memory.\<close>

record outcome =
  ret :: int
  out_resp :: seccomp_notif_resp
  bridge :: "string list list"
  devices :: "(string \<times> Device \<times> int) list"
  writes :: "(64 word \<times> string) list"

text \<open>Two emulators can panic (an index out of range, an allocation that fails).\<close>

datatype result = Panics | Returns outcome

definition returns :: "int \<Rightarrow> seccomp_notif_resp \<Rightarrow> outcome" where
  "returns e r = \<lparr>ret = e, out_resp = r, bridge = [], devices = [], writes = []\<rparr>"

text \<open>The recurring pair of statements
  \<^verbatim>\<open>C.seccomp_notify_update_response(siov.resp, 0, C.uint32_t(seccompUserNotifFlagContinue)); return 0\<close>.\<close>

definition syscall_continue :: "seccomp_notif_resp \<Rightarrow> outcome" where
  "syscall_continue r =
     returns 0 (seccomp_notify_update_response r 0 seccompUserNotifFlagContinue)"

definition MakePidFd :: "State \<Rightarrow> host \<Rightarrow> int \<Rightarrow> int" where
  "MakePidFd s h pid = (if PidFds s then (if PidFdOpen h pid then 3 else - 1) else - 1)"

text \<open>The tail shared by every helper invocation: the child's errno is parsed from its
  error stream; a parse failure and \<^verbatim>\<open>ENOANO\<close> become \<^verbatim>\<open>-EPERM\<close>.\<close>

definition forksyscall_errno :: "string option \<Rightarrow> int" where
  "forksyscall_errno run =
     (case run of
        None \<Rightarrow> 0
      | Some stderr \<Rightarrow>
          (case Atoi stderr of
             None \<Rightarrow> - EPERM
           | Some errno \<Rightarrow> if errno = ENOANO then - EPERM else neg_int errno))"

subsection \<open>mknod and mknodat\<close>

definition dev_get :: "Device \<Rightarrow> string \<Rightarrow> string" where
  "dev_get dev k = cfg (map_of dev) k"

definition forkmknod_argv :: "State \<Rightarrow> host \<Rightarrow> Device \<Rightarrow> int \<Rightarrow> int \<times> int \<times> int \<times> int \<Rightarrow> string list" where
  "forkmknod_argv s h dev requestPID ids =
     (case ids of (uid, gid, fsuid, fsgid) \<Rightarrow>
        [''forksyscall'', ''mknod'', dev_get dev ''pid'',
         show_int (MakePidFd s h requestPID),
         dev_get dev ''path'', dev_get dev ''mode_t'', dev_get dev ''dev_t'',
         show_int uid, show_int gid, show_int fsuid, show_int fsgid])"

text \<open>\<^verbatim>\<open>CallForkmknod\<close>: the errno it returns and the helper invocations it made.\<close>

definition CallForkmknod :: "State \<Rightarrow> host \<Rightarrow> Device \<Rightarrow> int \<Rightarrow> int \<times> string list list" where
  "CallForkmknod s h dev requestPID =
     (case TaskIDs h requestPID of
        None \<Rightarrow> (- EPERM, [])
      | Some ids \<Rightarrow>
          (let argv = forkmknod_argv s h dev requestPID ids
           in (forksyscall_errno (RunCommandSplit h argv), [argv])))"

record MknodArgs =
  cMode :: "32 word"
  cDev :: "64 word"
  cPid :: "32 word"
  path :: string

definition mknod_device :: "MknodArgs \<Rightarrow> Device" where
  "mknod_device args =
    [ (''type'', ''unix-char''),
      (''mode'', show_octal_alt (unat (cMode args))),
      (''major'', show_nat (unat (Major (cDev args)))),
      (''minor'', show_nat (unat (Minor (cDev args)))),
      (''pid'', show_int (sint (cPid args))),
      (''path'', path args),
      (''mode_t'', show_nat (unat (cMode args))),
      (''dev_t'', show_nat (unat (cDev args))) ]"

definition doDeviceSyscall ::
  "State \<Rightarrow> host \<Rightarrow> Instance \<Rightarrow> MknodArgs \<Rightarrow> Iovec \<Rightarrow> outcome" where
  "doDeviceSyscall s h c args siov =
     (let dev = mknod_device args;
          (errno, calls) = CallForkmknod s h dev (sint (cPid args))
      in if errno \<noteq> - ENOMEDIUM then (returns errno (resp siov))\<lparr>bridge := calls\<rparr>
         else
           (let prefix = ''forkmknod.unix.'' @ show_int (sint (cPid args));
                inserted = [(prefix, dev, sint (cPid args))]
            in if \<not> InsertSeccompUnixDevice c prefix dev (sint (cPid args))
               then (returns (- EPERM) (resp siov))\<lparr>bridge := calls, devices := inserted\<rparr>
               else (returns 0 (resp siov))\<lparr>bridge := calls, devices := inserted\<rparr>))"

definition HandleMknodSyscall :: "State \<Rightarrow> host \<Rightarrow> Instance \<Rightarrow> Iovec \<Rightarrow> outcome" where
  "HandleMknodSyscall s h c siov =
     (let d = req_data (req siov) in
      if device_allowed (arg2 d) (ucast (arg1 d)) < 0 then
        (if SeccompListenerContinue s then syscall_continue (resp siov)
         else returns (resp_error (resp siov)) (resp siov))
      else
        (case pread h (arg0 d) PathMax of
           None \<Rightarrow>
             (if SeccompListenerContinue s then syscall_continue (resp siov)
              else returns (- EPERM) (resp siov))
         | Some bytes \<Rightarrow>
             (let args = \<lparr>cMode = ucast (arg1 d), cDev = arg2 d, cPid = req_pid (req siov),
                          path = GoString (read_into (zeroed PathMax) bytes)\<rparr>
              in doDeviceSyscall s h c args siov)))"

definition HandleMknodatSyscall :: "State \<Rightarrow> host \<Rightarrow> Instance \<Rightarrow> Iovec \<Rightarrow> outcome" where
  "HandleMknodatSyscall s h c siov =
     (let d = req_data (req siov) in
      if (ucast (arg0 d) :: 32 word) \<noteq> AT_FDCWD then
        (if SeccompListenerContinue s then syscall_continue (resp siov)
         else returns (- EINVAL) (resp siov))
      else
        (let siov = siov\<lparr>resp := (resp siov)\<lparr>resp_error :=
                      device_allowed (arg3 d) (ucast (arg2 d))\<rparr>\<rparr>
         in if resp_error (resp siov) \<noteq> 0 then
              (if SeccompListenerContinue s then syscall_continue (resp siov)
               else returns (resp_error (resp siov)) (resp siov))
            else
              (case pread h (arg1 d) PathMax of
                 None \<Rightarrow>
                   (if SeccompListenerContinue s then syscall_continue (resp siov)
                    else returns (- EPERM) (resp siov))
               | Some bytes \<Rightarrow>
                   (let args = \<lparr>cMode = ucast (arg2 d), cDev = arg3 d,
                                cPid = req_pid (req siov),
                                path = GoString (read_into (zeroed PathMax) bytes)\<rparr>
                    in doDeviceSyscall s h c args siov))))"

subsection \<open>setxattr\<close>

definition setxattr_argv ::
  "int \<Rightarrow> int \<Rightarrow> int \<Rightarrow> int \<Rightarrow> int \<Rightarrow> int \<Rightarrow> string \<Rightarrow> string \<Rightarrow> int \<Rightarrow> int \<Rightarrow> int \<Rightarrow> string
   \<Rightarrow> string list" where
  "setxattr_argv pid pidFdNr nsuid nsgid nsfsuid nsfsgid args_name args_path args_flags
       whiteout args_size args_value =
     [''forksyscall'', ''setxattr'', show_int pid, show_int pidFdNr,
      show_int nsuid, show_int nsgid, show_int nsfsuid, show_int nsfsgid,
      args_name, args_path, show_int args_flags, show_int whiteout, show_int args_size,
      args_value]"

text \<open>\<^verbatim>\<open>HandleSetxattrSyscall\<close>. The path and the name are read into the same buffer
  \<^verbatim>\<open>cBuf\<close>. \<^verbatim>\<open>buf := make([]byte, args.size)\<close> followed by \<^verbatim>\<open>&buf[0]\<close> panics when
  the size is not positive (a negative length, or an index out of range in an empty
  slice) and when the allocation fails.\<close>

definition HandleSetxattrSyscall :: "State \<Rightarrow> host \<Rightarrow> Instance \<Rightarrow> Iovec \<Rightarrow> result" where
  "HandleSetxattrSyscall s h c siov =
    (let d = req_data (req siov);
         pid = uint (req_pid (req siov));
         pidFdNr = MakePidFd s h pid
     in
     case TaskIDs h pid of
       None \<Rightarrow>
         Returns (if SeccompListenerContinue s then syscall_continue (resp siov)
                  else returns (- EPERM) (resp siov))
     | Some (uid, gid, fsuid, fsgid) \<Rightarrow>
     (case CurrentIdmap c of
       None \<Rightarrow>
         Returns (if SeccompListenerContinue s then syscall_continue (resp siov)
                  else returns (- EINVAL) (resp siov))
     | Some idmapset \<Rightarrow>
     (let (nsuid, nsgid) = ShiftFromNS idmapset uid gid;
          (nsfsuid, nsfsgid) = ShiftFromNS idmapset fsuid fsgid;
          cBuf = zeroed PathMax
      in
      case pread h (arg0 d) PathMax of
        None \<Rightarrow>
          Returns (if SeccompListenerContinue s then syscall_continue (resp siov)
                   else returns (- EPERM) (resp siov))
      | Some bytes \<Rightarrow>
      (let cBuf = read_into cBuf bytes;
           args_path = GoString cBuf
       in
       case pread h (arg1 d) PathMax of
         None \<Rightarrow>
           Returns (if SeccompListenerContinue s then syscall_continue (resp siov)
                    else returns (- EPERM) (resp siov))
       | Some bytes \<Rightarrow>
       (let cBuf = read_into cBuf bytes;
            args_name = GoString cBuf;
            args_size = sint (arg3 d);
            args_flags = sint (ucast (arg4 d) :: 32 word)
        in
        if args_size \<le> 0 then Panics
        else if \<not> make_bytes h (nat args_size) then Panics
        else
          case pread h (arg2 d) (nat args_size) of
            None \<Rightarrow>
              Returns (if SeccompListenerContinue s then syscall_continue (resp siov)
                       else returns (- EPERM) (resp siov))
          | Some bytes \<Rightarrow>
          (let args_value = read_into (zeroed (nat args_size)) bytes;
               run = (\<lambda>whiteout.
                 let argv = setxattr_argv pid pidFdNr nsuid nsgid nsfsuid nsfsgid args_name
                              args_path args_flags whiteout args_size args_value
                 in (returns (forksyscall_errno (RunCommandSplit h argv)) (resp siov))
                      \<lparr>bridge := [argv]\<rparr>)
           in
           if args_name = ''trusted.overlay.opaque'' \<and> args_value = ''y'' then Returns (run 1)
           else if SeccompListenerContinue s then Returns (syscall_continue (resp siov))
           else Returns (run 0)))))))"

subsection \<open>sched_setscheduler\<close>

record SchedSetschedulerArgs =
  switchPidns :: int
  pidCaller :: int
  pidTarget :: int
  policy :: int
  schedPriority :: int
  nsuid :: int
  nsgid :: int

text \<open>The zero value \<^verbatim>\<open>SchedSetschedulerArgs{}\<close>.\<close>

definition SchedSetschedulerArgs_zero :: SchedSetschedulerArgs where
  "SchedSetschedulerArgs_zero =
     \<lparr>switchPidns = 0, pidCaller = 0, pidTarget = 0, policy = 0, schedPriority = 0,
      nsuid = 0, nsgid = 0\<rparr>"

text \<open>\<^verbatim>\<open>struct sched_param\<close> is one \<^verbatim>\<open>int\<close>, read in the byte order of the host
  (little-endian, as on x86 and arm64); \<^verbatim>\<open>INCUS_SCHED_PARAM_SIZE\<close> is its size.\<close>

definition INCUS_SCHED_PARAM_SIZE :: nat where "INCUS_SCHED_PARAM_SIZE = 4"

definition sched_priority_of :: "string \<Rightarrow> int" where
  "sched_priority_of buf =
     sint (word_of_nat (foldr (\<lambda>c acc. of_char c + 256 * acc) buf 0) :: 32 word)"

definition sched_setscheduler_argv :: "SchedSetschedulerArgs \<Rightarrow> int \<Rightarrow> string list" where
  "sched_setscheduler_argv args pidFdNr =
     [''forksyscall'', ''sched_setscheduler'', show_int (pidCaller args), show_int pidFdNr,
      show_int (switchPidns args), show_int (pidTarget args), show_int (policy args),
      show_int (schedPriority args)]"

text \<open>\<^verbatim>\<open>HandleSchedSetschedulerSyscall\<close>, statement by statement: the test
  \<^verbatim>\<open>args.policy < 0\<close> comes before the assignment of \<^verbatim>\<open>args.policy\<close>.\<close>

definition HandleSchedSetschedulerSyscall ::
  "State \<Rightarrow> host \<Rightarrow> Instance \<Rightarrow> Iovec \<Rightarrow> outcome" where
  "HandleSchedSetschedulerSyscall s h c siov =
    (let d = req_data (req siov);
         args = SchedSetschedulerArgs_zero;
         args = args\<lparr>pidCaller := uint (req_pid (req siov))\<rparr>;
         pidFdNr = MakePidFd s h (pidCaller args)
     in
     case TaskIDs h (pidCaller args) of
       None \<Rightarrow>
         (if SeccompListenerContinue s then syscall_continue (resp siov)
          else returns (- EPERM) (resp siov))
     | Some (uid, gid, _, _) \<Rightarrow>
     (case CurrentIdmap c of
       None \<Rightarrow>
         (if SeccompListenerContinue s then syscall_continue (resp siov)
          else returns (- EINVAL) (resp siov))
     | Some idmapset \<Rightarrow>
     (let args = args\<lparr>nsuid := fst (ShiftFromNS idmapset uid gid),
                      nsgid := snd (ShiftFromNS idmapset uid gid)\<rparr>
      in
      if nsuid args \<noteq> 0 \<or> nsgid args \<noteq> 0 then
        (if SeccompListenerContinue s then syscall_continue (resp siov)
         else returns (- EINVAL) (resp siov))
      else
      (let args = args\<lparr>pidTarget := sint (arg0 d)\<rparr> in
       if pidTarget args < 0 then
         (if SeccompListenerContinue s then syscall_continue (resp siov)
          else returns (- EINVAL) (resp siov))
       else
       (let args = (if pidTarget args = 0
                    then args\<lparr>pidTarget := pidCaller args, switchPidns := 0\<rparr>
                    else args\<lparr>switchPidns := 1\<rparr>)
        in
        if policy args < 0 then
          (if SeccompListenerContinue s then syscall_continue (resp siov)
           else returns (- EINVAL) (resp siov))
        else
        (let args = args\<lparr>policy := sint (ucast (arg1 d) :: 32 word)\<rparr> in
         case pread h (arg2 d) INCUS_SCHED_PARAM_SIZE of
           None \<Rightarrow>
             (if SeccompListenerContinue s then syscall_continue (resp siov)
              else returns (- EPERM) (resp siov))
         | Some bytes \<Rightarrow>
         (let schedParamArgs = read_into (zeroed INCUS_SCHED_PARAM_SIZE) bytes;
              args = args\<lparr>schedPriority := sched_priority_of schedParamArgs\<rparr>;
              argv = sched_setscheduler_argv args pidFdNr
          in (returns (forksyscall_errno (RunCommandSplit h argv)) (resp siov))
               \<lparr>bridge := [argv]\<rparr>)))))))"

subsection \<open>sysinfo\<close>

text \<open>The instance metrics (\<^verbatim>\<open>Sysinfo\<close>, declared in a file that is not among the
  sources): the fields the emulator assigns.\<close>

record Sysinfo_metrics =
  m_Unit :: int
  m_Uptime :: int
  m_Procs :: "16 word"
  m_Sharedram :: "64 word"
  m_Bufferram :: "64 word"
  m_Totalram :: "64 word"
  m_Freeram :: "64 word"
  m_Totalswap :: "64 word"
  m_Freeswap :: "64 word"

definition Sysinfo_zero :: Sysinfo_metrics where
  "Sysinfo_zero =
     \<lparr>m_Unit = 0, m_Uptime = 0, m_Procs = 0, m_Sharedram = 0, m_Bufferram = 0,
      m_Totalram = 0, m_Freeram = 0, m_Totalswap = 0, m_Freeswap = 0\<rparr>"

text \<open>What the sysinfo emulator asks of the host: the host's own \<^verbatim>\<open>sysinfo\<close>, the
  cgroup of the instance and its counters (\<open>None\<close> for an error), the fields of
  \<^verbatim>\<open>/proc/<init_pid>/stat\<close> as \<^verbatim>\<open>strings.Fields\<close> splits them, the clock
  (\<open>UptimeSince age\<close> is \<^verbatim>\<open>int64(time.Since(BootTime).Seconds() - age)\<close>), the two
  native layouts of the result and the write to the target's memory.\<close>

record sysinfo_host =
  Sysinfo_call :: bool
  NewFileReadWriter :: "int \<Rightarrow> bool"
  ReadStat :: "int \<Rightarrow> string list option"
  UptimeSince :: "int \<Rightarrow> int"
  GetProcessesUsage :: "int option"
  GetMemoryStats :: "(string \<rightharpoonup> 64 word) option"
  GetEffectiveMemoryLimit :: "int option"
  GetMemoryUsage :: "int option"
  SupportsSwap :: bool
  GetMemorySwapLimit :: "int option"
  GetMemorySwapUsage :: "int option"
  ToNative32 :: "Sysinfo_metrics \<Rightarrow> string"
  ToNative :: "Sysinfo_metrics \<Rightarrow> string"
  Pwrite :: "64 word \<Rightarrow> string \<Rightarrow> bool"

text \<open>\<^verbatim>\<open>osarch.ARCH_64BIT_INTEL_X86\<close>.\<close>

definition ARCH_64BIT_INTEL_X86 :: int where "ARCH_64BIT_INTEL_X86 = 2"

text \<open>Go's integer division truncates towards zero.\<close>

definition go_div :: "int \<Rightarrow> int \<Rightarrow> int" where
  "go_div a b = sgn a * sgn b * (\<bar>a\<bar> div \<bar>b\<bar>)"

text \<open>The swap counters, read only when the cgroup supports them; \<open>None\<close> when a
  counter cannot be read.\<close>

definition sysinfo_swap :: "sysinfo_host \<Rightarrow> Sysinfo_metrics \<Rightarrow> Sysinfo_metrics option" where
  "sysinfo_swap sh instMetrics =
     (if SupportsSwap sh then
        (case GetMemorySwapLimit sh of
           None \<Rightarrow> None
         | Some swapLimit \<Rightarrow>
             (case GetMemorySwapUsage sh of
                None \<Rightarrow> None
              | Some swapUsage \<Rightarrow>
                  Some (instMetrics\<lparr>m_Totalswap := word_of_int swapLimit,
                                    m_Freeswap := word_of_int swapLimit - word_of_int swapUsage\<rparr>)))
      else Some instMetrics)"

text \<open>\<^verbatim>\<open>HandleSysinfoSyscall\<close>. Every failure sets the continue flag, whatever the
  daemon's \<^verbatim>\<open>SeccompListenerContinue\<close>; \<^verbatim>\<open>fields[21]\<close> panics on a short line.\<close>

definition HandleSysinfoSyscall :: "sysinfo_host \<Rightarrow> Instance \<Rightarrow> Iovec \<Rightarrow> result" where
  "HandleSysinfoSyscall sh c siov =
    (let compat32 = (Architecture c = ARCH_64BIT_INTEL_X86
                     \<and> arch (req_data (req siov)) = AUDIT_ARCH_I386);
         initpid = sint (init_pid (msg siov))
     in
     if \<not> Sysinfo_call sh then Returns (syscall_continue (resp siov))
     else
     (let instMetrics = Sysinfo_zero\<lparr>m_Unit := 1\<rparr>;
          instMetrics = (if compat32 then instMetrics\<lparr>m_Unit := 4096\<rparr> else instMetrics)
      in
      if \<not> NewFileReadWriter sh initpid then Returns (syscall_continue (resp siov))
      else
      case ReadStat sh initpid of
        None \<Rightarrow> Returns (syscall_continue (resp siov))
      | Some stat_fields \<Rightarrow>
      if length stat_fields \<le> 21 then Panics
      else
      case Atoi (stat_fields ! 21) of
        None \<Rightarrow> Returns (syscall_continue (resp siov))
      | Some tickValue \<Rightarrow>
      (let age = go_div tickValue 100;
           instMetrics = (if age > 0 then instMetrics\<lparr>m_Uptime := UptimeSince sh age\<rparr>
                          else instMetrics)
       in
       case GetProcessesUsage sh of
         None \<Rightarrow> Returns (syscall_continue (resp siov))
       | Some pids \<Rightarrow>
       (let instMetrics = instMetrics\<lparr>m_Procs := word_of_int pids\<rparr> in
        case GetMemoryStats sh of
          None \<Rightarrow> Returns (syscall_continue (resp siov))
        | Some memStats \<Rightarrow>
        (let instMetrics = (case memStats ''shmem'' of
                              Some v \<Rightarrow> instMetrics\<lparr>m_Sharedram := v\<rparr>
                            | None \<Rightarrow> instMetrics);
             instMetrics = (case memStats ''cache'' of
                              Some v \<Rightarrow> instMetrics\<lparr>m_Bufferram := v\<rparr>
                            | None \<Rightarrow> instMetrics)
         in
         case GetEffectiveMemoryLimit sh of
           None \<Rightarrow> Returns (syscall_continue (resp siov))
         | Some memoryLimit \<Rightarrow>
         (case GetMemoryUsage sh of
           None \<Rightarrow> Returns (syscall_continue (resp siov))
         | Some memoryUsage \<Rightarrow>
         (let instMetrics = instMetrics\<lparr>m_Totalram := word_of_int memoryLimit\<rparr>;
              instMetrics = instMetrics\<lparr>m_Freeram :=
                 m_Totalram instMetrics - word_of_int memoryUsage - m_Bufferram instMetrics\<rparr>
          in
          case sysinfo_swap sh instMetrics of
            None \<Rightarrow> Returns (syscall_continue (resp siov))
          | Some instMetrics \<Rightarrow>
          (let b = (if compat32 then ToNative32 sh instMetrics else ToNative sh instMetrics);
               addr = arg0 (req_data (req siov))
           in
           if \<not> Pwrite sh addr b then
             Returns ((syscall_continue (resp siov))\<lparr>writes := [(addr, b)]\<rparr>)
           else Returns ((returns 0 (resp siov))\<lparr>writes := [(addr, b)]\<rparr>)))))))))"

subsection \<open>mount\<close>

text \<open>\<^verbatim>\<open>strings.Split\<close> with a separator of one character, \<^verbatim>\<open>strings.HasPrefix\<close>
  and \<^verbatim>\<open>strings.Join\<close>.\<close>

fun Split :: "string \<Rightarrow> char \<Rightarrow> string list" where
  "Split [] sep = [[]]"
| "Split (x # xs) sep =
     (if x = sep then [] # Split xs sep
      else (case Split xs sep of w # ws \<Rightarrow> (x # w) # ws | [] \<Rightarrow> [[x]]))"

definition HasPrefix :: "string \<Rightarrow> string \<Rightarrow> bool" where
  "HasPrefix str pre = (take (length pre) str = pre)"

fun Join :: "string list \<Rightarrow> string \<Rightarrow> string" where
  "Join [] sep = []"
| "Join [w] sep = w"
| "Join (w # ws) sep = w @ sep @ Join ws sep"

text \<open>\<^verbatim>\<open>idmap.StorageTypeNone\<close>.\<close>

definition StorageTypeNone :: string where "StorageTypeNone = ''none''"

definition MountSyscallShift :: "packages \<Rightarrow> Instance \<Rightarrow> string \<Rightarrow> string \<Rightarrow> string" where
  "MountSyscallShift p c pathname fsType =
     (if IsTrue p (cfg (ExpandedConfig c) ''security.syscalls.intercept.mount.shift'') then
        (case DiskIdmap c of
           None \<Rightarrow> StorageTypeNone
         | Some None \<Rightarrow> IdmappedStorage c pathname fsType
         | Some (Some diskIdmap) \<Rightarrow> StorageTypeNone)
      else StorageTypeNone)"

text \<open>The two loops of \<^verbatim>\<open>SyscallInterceptMountFilter\<close>; \<open>None\<close> is its error.\<close>

fun mount_filter_fuse :: "string list \<Rightarrow> (string \<rightharpoonup> string) \<Rightarrow> (string \<rightharpoonup> string) option" where
  "mount_filter_fuse [] fsMap = Some fsMap"
| "mount_filter_fuse (ent # rest) fsMap =
     (case Split ent (CHR ''='') of
        [fs, bin] \<Rightarrow> mount_filter_fuse rest (fsMap(fs \<mapsto> bin))
      | _ \<Rightarrow> None)"

fun mount_filter_allowed :: "string list \<Rightarrow> (string \<rightharpoonup> string) \<Rightarrow> (string \<rightharpoonup> string) option" where
  "mount_filter_allowed [] fsMap = Some fsMap"
| "mount_filter_allowed (allowedfs # rest) fsMap =
     (if cfg fsMap allowedfs \<noteq> [] then None
      else mount_filter_allowed rest (fsMap(allowedfs \<mapsto> [])))"

definition SyscallInterceptMountFilter :: "packages \<Rightarrow> config \<Rightarrow> (string \<rightharpoonup> string) option" where
  "SyscallInterceptMountFilter p config =
     (if IsFalseOrEmpty p (cfg config ''security.syscalls.intercept.mount'') then Some Map.empty
      else
        (let fsFused = Split (cfg config ''security.syscalls.intercept.mount.fuse'') (CHR '','');
             fused = (if length fsFused > 0 \<and> hd fsFused \<noteq> []
                      then mount_filter_fuse fsFused Map.empty else Some Map.empty)
         in case fused of
              None \<Rightarrow> None
            | Some fsMap \<Rightarrow>
                (let fsAllowed =
                       Split (cfg config ''security.syscalls.intercept.mount.allowed'') (CHR '','')
                 in if length fsAllowed > 0 \<and> hd fsAllowed \<noteq> []
                    then mount_filter_allowed fsAllowed fsMap else Some fsMap)))"

definition MountSyscallValid :: "packages \<Rightarrow> Instance \<Rightarrow> string \<Rightarrow> bool \<times> string" where
  "MountSyscallValid p c fstype =
     (case SyscallInterceptMountFilter p (ExpandedConfig c) of
        None \<Rightarrow> (False, [])
      | Some fsMap \<Rightarrow>
          (case fsMap fstype of Some fuse \<Rightarrow> (True, fuse) | None \<Rightarrow> (False, [])))"

text \<open>The loop of \<^verbatim>\<open>mountHandleHugetlbfsArgs\<close> over the options: the rewritten options
  and the last shifted uid and gid; \<open>None\<close> is one of its early \<^verbatim>\<open>return nil\<close>.\<close>

definition keep_opt ::
  "string \<Rightarrow> (string list \<times> int \<times> int) option \<Rightarrow> (string list \<times> int \<times> int) option" where
  "keep_opt opt later =
     (case later of None \<Rightarrow> None | Some (opts, u, g) \<Rightarrow> Some (opt # opts, u, g))"

fun hugetlbfs_range ::
  "idmap_set \<Rightarrow> string list \<Rightarrow> int \<Rightarrow> int \<Rightarrow> (string list \<times> int \<times> int) option" where
  "hugetlbfs_range idmapset [] uidOpt gidOpt = Some ([], uidOpt, gidOpt)"
| "hugetlbfs_range idmapset (optString # rest) uidOpt gidOpt =
     (if HasPrefix optString ''uid='' then
        (let uidFields = Split optString (CHR ''='') in
         if length uidFields > 1 then
           (case Atoi (uidFields ! 1) of
              None \<Rightarrow> None
            | Some n \<Rightarrow>
                (let shifted = fst (ShiftIntoNS idmapset n 0) in
                 if shifted < 0 then None
                 else keep_opt (''uid='' @ show_int shifted)
                        (hugetlbfs_range idmapset rest shifted gidOpt)))
         else keep_opt optString (hugetlbfs_range idmapset rest uidOpt gidOpt))
      else if HasPrefix optString ''gid='' then
        (let gidFields = Split optString (CHR ''='') in
         if length gidFields > 1 then
           (case Atoi (gidFields ! 1) of
              None \<Rightarrow> None
            | Some n \<Rightarrow>
                (let shifted = fst (ShiftIntoNS idmapset n 0) in
                 if shifted < 0 then None
                 else keep_opt (''gid='' @ show_int shifted)
                        (hugetlbfs_range idmapset rest uidOpt shifted)))
         else keep_opt optString (hugetlbfs_range idmapset rest uidOpt gidOpt))
      else keep_opt optString (hugetlbfs_range idmapset rest uidOpt gidOpt))"

text \<open>\<^verbatim>\<open>mountHandleHugetlbfsArgs\<close> on the fields of \<^verbatim>\<open>args\<close> it reads and writes: the
  filesystem type, the mount data and the idmap type. \<open>None\<close> is its error; otherwise
  the new mount data and idmap type.\<close>

definition mountHandleHugetlbfsArgs ::
  "Instance \<Rightarrow> string \<Rightarrow> string \<Rightarrow> string \<Rightarrow> int \<Rightarrow> int \<Rightarrow> (string \<times> string) option" where
  "mountHandleHugetlbfsArgs c fstype mdata idmapType ns_uid ns_gid =
     (if fstype \<noteq> ''hugetlbfs'' then Some (mdata, idmapType)
      else if mdata = [] then
        Some (''uid='' @ show_int ns_uid @ '',gid='' @ show_int ns_gid, idmapType)
      else
        (case CurrentIdmap c of
           None \<Rightarrow> None
         | Some idmapset \<Rightarrow>
             (case hugetlbfs_range idmapset (Split mdata (CHR '','')) (- 1) (- 1) of
                None \<Rightarrow> Some (mdata, idmapType)
              | Some (optStrings, uidOpt, gidOpt) \<Rightarrow>
                  (let optStrings = (if uidOpt = - 1
                                     then optStrings @ [''uid='' @ show_int ns_uid]
                                     else optStrings);
                       optStrings = (if gidOpt = - 1
                                     then optStrings @ [''gid='' @ show_int ns_gid]
                                     else optStrings)
                   in Some (Join optStrings '','', StorageTypeNone)))))"

text \<open>The mount flags of \<^verbatim>\<open>sys/mount.h\<close> that \<^verbatim>\<open>mountFlagsToOpts\<close> names.\<close>

definition MS_RDONLY :: "64 word" where "MS_RDONLY = 1"
definition MS_NOSUID :: "64 word" where "MS_NOSUID = 2"
definition MS_NODEV :: "64 word" where "MS_NODEV = 4"
definition MS_NOEXEC :: "64 word" where "MS_NOEXEC = 8"
definition MS_SYNCHRONOUS :: "64 word" where "MS_SYNCHRONOUS = 16"
definition MS_REMOUNT :: "64 word" where "MS_REMOUNT = 32"
definition MS_MANDLOCK :: "64 word" where "MS_MANDLOCK = 64"
definition MS_NOATIME :: "64 word" where "MS_NOATIME = 1024"
definition MS_NODIRATIME :: "64 word" where "MS_NODIRATIME = 2048"
definition MS_BIND :: "64 word" where "MS_BIND = 4096"
definition MS_REC :: "64 word" where "MS_REC = 16384"
definition MS_STRICTATIME :: "64 word" where "MS_STRICTATIME = 16777216"
definition MS_LAZYTIME :: "64 word" where "MS_LAZYTIME = 33554432"

text \<open>\<^verbatim>\<open>mountFlagsToOptMap[flag]\<close>, the empty string for a flag that is not a key.\<close>

definition mountFlagsToOptMap :: "64 word \<Rightarrow> string" where
  "mountFlagsToOptMap flag =
     (if flag = MS_BIND then ''bind''
      else if flag = 0 then ''defaults''
      else if flag = MS_LAZYTIME then ''lazytime''
      else if flag = MS_MANDLOCK then ''mand''
      else if flag = MS_NOATIME then ''noatime''
      else if flag = MS_NODEV then ''nodev''
      else if flag = MS_NODIRATIME then ''nodiratime''
      else if flag = MS_NOEXEC then ''noexec''
      else if flag = MS_NOSUID then ''nosuid''
      else if flag = MS_REMOUNT then ''remount''
      else if flag = MS_RDONLY then ''ro''
      else if flag = MS_STRICTATIME then ''strictatime''
      else if flag = MS_SYNCHRONOUS then ''sync''
      else if flag = MS_REC OR MS_BIND then ''rbind''
      else [])"

text \<open>\<^verbatim>\<open>mountFlagsToOpts\<close>: the loop runs \<^verbatim>\<open>currentBit\<close> from 0 to 30.\<close>

definition mountFlagsToOpts :: "64 word \<Rightarrow> string" where
  "mountFlagsToOpts flags0 =
     (let msRec = flags0 AND MS_REC;
          flags = flags0 AND NOT MS_REC
      in foldl
           (\<lambda>opts currentBit.
              let flag = push_bit currentBit (1 :: 64 word) in
              if flags AND flag = 0 then opts
              else
                (let flag = (if flag = MS_BIND \<and> msRec = MS_REC then flag OR msRec else flag);
                     optOrArg = mountFlagsToOptMap flag
                 in if optOrArg = [] then opts
                    else if opts = [] then optOrArg
                    else opts @ '','' @ optOrArg))
           [] [0 ..< 31])"

text \<open>One string argument of \<^verbatim>\<open>mount\<close>: a null pointer leaves the zeroed buffer,
  otherwise the buffer is read; \<open>None\<close> when the read fails.\<close>

definition mount_string :: "host \<Rightarrow> bool \<Rightarrow> 64 word \<Rightarrow> string option" where
  "mount_string h present addr =
     (if present then
        (case pread h addr PathMax of
           None \<Rightarrow> None
         | Some bytes \<Rightarrow> Some (GoString (read_into (zeroed PathMax) bytes)))
      else Some (GoString (zeroed PathMax)))"

text \<open>\<^verbatim>\<open>HandleMountSyscall\<close>. The filesystem type is read when \<^verbatim>\<open>args[1]\<close>, the
  target pointer, is not null. \<^verbatim>\<open>pidFd.Fd()\<close> of the nil file that \<^verbatim>\<open>MakePidFd\<close>
  returns with \<^verbatim>\<open>-1\<close> is an invalid descriptor, so the signal fails. Every failure
  sets the continue flag, whatever the daemon's \<^verbatim>\<open>SeccompListenerContinue\<close>.
  \<open>Join_path\<close> is \<^verbatim>\<open>filepath.Join\<close>.\<close>

definition HandleMountSyscall ::
  "State \<Rightarrow> packages \<Rightarrow> host \<Rightarrow> (string \<Rightarrow> string \<Rightarrow> string) \<Rightarrow> Instance \<Rightarrow> Iovec \<Rightarrow> outcome" where
  "HandleMountSyscall s p h Join_path c siov =
    (let d = req_data (req siov);
         pid = uint (req_pid (req siov));
         pidFdNr = MakePidFd s h pid
     in
     case mount_string h (arg0 d \<noteq> 0) (arg0 d) of
       None \<Rightarrow> syscall_continue (resp siov)
     | Some source \<Rightarrow>
     (case mount_string h (arg1 d \<noteq> 0) (arg1 d) of
       None \<Rightarrow> syscall_continue (resp siov)
     | Some target \<Rightarrow>
     (case mount_string h (arg1 d \<noteq> 0) (arg2 d) of
       None \<Rightarrow> syscall_continue (resp siov)
     | Some fstype \<Rightarrow>
     (let fullSrcPath = Join_path (''/proc/'' @ show_int pid @ ''/root/'') source;
          idmapType = (if PathExists h fullSrcPath
                       then MountSyscallShift p c fullSrcPath fstype
                       else MountSyscallShift p c source fstype);
          flags = sint (arg3 d)
      in
      case mount_string h (arg4 d \<noteq> 0) (arg4 d) of
        None \<Rightarrow> syscall_continue (resp siov)
      | Some mdata \<Rightarrow>
      if pidFdNr < 0 then syscall_continue (resp siov)
      else if \<not> PidfdSendSignal h then syscall_continue (resp siov)
      else
      (case MountSyscallValid p c fstype of
         (ok, fuseBinary) \<Rightarrow>
      if \<not> ok then syscall_continue (resp siov)
      else
      (case CurrentIdmap c of
         None \<Rightarrow> syscall_continue (resp siov)
       | Some idmapset \<Rightarrow>
      (case TaskIDs h pid of
         None \<Rightarrow> syscall_continue (resp siov)
       | Some (uid, gid, fsuid, fsgid) \<Rightarrow>
      (let (ns_uid, ns_gid) = ShiftFromNS idmapset uid gid;
           (ns_fsuid, ns_fsgid) = ShiftFromNS idmapset fsuid fsgid
       in
       case mountHandleHugetlbfsArgs c fstype mdata idmapType uid gid of
         None \<Rightarrow> syscall_continue (resp siov)
       | Some (mdata, idmapType) \<Rightarrow>
       (let argv =
              (if fuseBinary \<noteq> [] then
                 (let addOpts = mountFlagsToOpts (word_of_int flags);
                      fuseSource = fuseBinary @ ''#'' @ source;
                      fuseOpts = (if mdata \<noteq> [] \<and> addOpts \<noteq> [] then mdata @ '','' @ addOpts
                                  else if mdata \<noteq> [] then mdata
                                  else if addOpts \<noteq> [] then addOpts
                                  else [])
                  in [''forksyscall'', ''mount'', show_int pid, show_int pidFdNr, show_int 1,
                      show_int uid, show_int gid, show_int fsuid, show_int fsgid,
                      fuseSource, target, fuseOpts])
               else
                 [''forksyscall'', ''mount'', show_int pid, show_int pidFdNr, show_int 0,
                  source, target, fstype, show_int flags, idmapType,
                  show_int uid, show_int gid, show_int fsuid, show_int fsgid,
                  show_int ns_uid, show_int ns_gid, show_int ns_fsuid, show_int ns_fsgid,
                  mdata])
        in case RunCommandSplit h argv of
             Some stderr \<Rightarrow> (syscall_continue (resp siov))\<lparr>bridge := [argv]\<rparr>
           | None \<Rightarrow> (returns 0 (resp siov))\<lparr>bridge := [argv]\<rparr>)))))))))"

subsection \<open>bpf\<close>

text \<open>The fields of \<^verbatim>\<open>union bpf_attr\<close> the emulator reads.\<close>

record bpf_attr =
  prog_type :: "32 word"
  insn_cnt :: "32 word"
  insns :: "64 word"
  license :: "64 word"
  log_size :: "32 word"
  log_buf :: "64 word"
  attach_type :: "32 word"
  target_fd :: "32 word"
  attach_bpf_fd :: "32 word"

definition BPF_PROG_LOAD :: "64 word" where "BPF_PROG_LOAD = 5"
definition BPF_PROG_ATTACH :: "64 word" where "BPF_PROG_ATTACH = 8"
definition BPF_PROG_DETACH :: "64 word" where "BPF_PROG_DETACH = 9"
definition BPF_PROG_TYPE_CGROUP_DEVICE :: "32 word" where "BPF_PROG_TYPE_CGROUP_DEVICE = 15"
definition BPF_CGROUP_DEVICE :: "32 word" where "BPF_CGROUP_DEVICE = 6"

text \<open>The system calls of \<^verbatim>\<open>handle_bpf_syscall\<close>. A call that can fail is a sum:
  \<open>Inl\<close> the errno it sets, \<open>Inr\<close> its value; \<open>notif_id_valid\<close> and \<open>pread_license\<close>
  are the errno of a failure, if any. \<open>sizeof_bpf_attr\<close> is the size of the union when
  the daemon was compiled.\<close>

record bpf_host =
  sizeof_bpf_attr :: nat
  pread_attr :: "64 word \<Rightarrow> nat \<Rightarrow> int + bpf_attr"
  pidfd_open :: "int \<Rightarrow> bool \<Rightarrow> int + int"
  notif_id_valid :: "64 word \<Rightarrow> int option"
  malloc :: "nat \<Rightarrow> bool"
  pread_insn :: "64 word \<Rightarrow> nat \<Rightarrow> int + nat"
  pread_license :: "64 word \<Rightarrow> int option"
  bpf_syscall :: "64 word \<Rightarrow> bpf_attr \<Rightarrow> int + int"
  notif_addfd :: "int \<Rightarrow> int + int"
  pidfd_getfd :: "int \<Rightarrow> 32 word \<Rightarrow> int + int"
  filetable_shared :: "int \<Rightarrow> int \<Rightarrow> bool"
  process_still_alive :: "int \<Rightarrow> bool"

text \<open>The \<^verbatim>\<open>BPF_PROG_LOAD\<close> case. The pointers of the new attribute point into the
  daemon's own buffers and are left out; a failed load returns the errno of the load,
  whether or not the verifier log could be copied back.\<close>

definition bpf_prog_load :: "bpf_host \<Rightarrow> bpf_attr \<Rightarrow> seccomp_notif_resp \<Rightarrow> int \<times> seccomp_notif_resp" where
  "bpf_prog_load bh attr rs =
     (if prog_type attr \<noteq> BPF_PROG_TYPE_CGROUP_DEVICE then (- EINVAL, rs)
      else if insn_cnt attr > 1000000 then (- EINVAL, rs)
      else
        (let insn_size = 8 * unat (insn_cnt attr) in
         if \<not> malloc bh insn_size then (- ENOMEM, rs)
         else
           (case pread_insn bh (insns attr) insn_size of
              Inl errno \<Rightarrow> (- errno, rs)
            | Inr n \<Rightarrow>
                if n \<noteq> insn_size then (- EIO, rs)
                else
                  (let new_attr = (if log_size attr > 4096 then attr\<lparr>log_size := 4096\<rparr>
                                   else attr);
                       license_error = (if license attr \<noteq> 0 then pread_license bh (license attr)
                                        else None)
                   in case license_error of
                        Some errno \<Rightarrow> (- errno, rs)
                      | None \<Rightarrow>
                          (case bpf_syscall bh BPF_PROG_LOAD new_attr of
                             Inl errno \<Rightarrow> (- errno, rs)
                           | Inr bpf_prog_fd \<Rightarrow>
                               (case notif_addfd bh bpf_prog_fd of
                                  Inl errno \<Rightarrow> (- errno, rs)
                                | Inr fd \<Rightarrow> (0, rs\<lparr>resp_val := fd\<rparr>)))))))"

text \<open>The \<^verbatim>\<open>BPF_PROG_ATTACH\<close> and \<^verbatim>\<open>BPF_PROG_DETACH\<close> cases, which differ only in
  the command: the value of the host's \<^verbatim>\<open>bpf\<close> call is returned as it is
  (\<^verbatim>\<open>-1\<close> when it fails).\<close>

definition bpf_prog_attach ::
  "bpf_host \<Rightarrow> 64 word \<Rightarrow> bpf_attr \<Rightarrow> int \<Rightarrow> int \<Rightarrow> int \<Rightarrow> bool \<Rightarrow> int" where
  "bpf_prog_attach bh cmd attr pidfd pid_target tgid thread =
     (if attach_type attr \<noteq> BPF_CGROUP_DEVICE then - EINVAL
      else
        (case pidfd_getfd bh pidfd (target_fd attr) of
           Inl errno \<Rightarrow> - errno
         | Inr bpf_target_fd \<Rightarrow>
             (case pidfd_getfd bh pidfd (attach_bpf_fd attr) of
                Inl errno \<Rightarrow> - errno
              | Inr bpf_attach_fd \<Rightarrow>
                  if \<not> thread \<and> tgid \<noteq> pid_target \<and> \<not> filetable_shared bh tgid pid_target
                  then - EINVAL
                  else if \<not> thread \<and> tgid \<noteq> pid_target \<and> \<not> process_still_alive bh pidfd
                  then - EINVAL
                  else
                    (case bpf_syscall bh cmd
                            (attr\<lparr>target_fd := word_of_int bpf_target_fd,
                                  attach_bpf_fd := word_of_int bpf_attach_fd\<rparr>) of
                       Inl errno \<Rightarrow> - 1
                     | Inr v \<Rightarrow> v))))"

text \<open>\<^verbatim>\<open>handle_bpf_syscall\<close>: the value it returns and the response, whose
  \<^verbatim>\<open>val\<close> a successful load sets. \<open>thread\<close> is the flag \<^verbatim>\<open>PIDFD_THREAD\<close>.\<close>

definition handle_bpf_syscall ::
  "bpf_host \<Rightarrow> int \<Rightarrow> int \<Rightarrow> seccomp_notif \<Rightarrow> seccomp_notif_resp \<Rightarrow> bool
   \<Rightarrow> int \<times> seccomp_notif_resp" where
  "handle_bpf_syscall bh pid_target tgid rq rs thread =
     (let d = req_data rq in
      if sizeof_bpf_attr bh < unat (arg2 d) then (- EFBIG, rs)
      else
        (let attr_len = unat (arg2 d) in
         if arg0 d \<noteq> BPF_PROG_LOAD \<and> arg0 d \<noteq> BPF_PROG_ATTACH \<and> arg0 d \<noteq> BPF_PROG_DETACH
         then (- EINVAL, rs)
         else
           (case pread_attr bh (arg1 d) attr_len of
              Inl errno \<Rightarrow> (- errno, rs)
            | Inr attr \<Rightarrow>
                (case (if thread then pidfd_open bh pid_target True
                       else pidfd_open bh tgid False) of
                   Inl errno \<Rightarrow> (- errno, rs)
                 | Inr pidfd \<Rightarrow>
                     (case notif_id_valid bh (req_id rq) of
                        Some errno \<Rightarrow> (- errno, rs)
                      | None \<Rightarrow>
                          if arg0 d = BPF_PROG_LOAD then bpf_prog_load bh attr rs
                          else (bpf_prog_attach bh (arg0 d) attr pidfd pid_target tgid thread,
                                rs))))))"

text \<open>\<^verbatim>\<open>HandleBpfSyscall\<close>. The \<^verbatim>\<open>tgid\<close> that \<^verbatim>\<open>FindTGID\<close> returns is assigned to a
  variable local to the \<^verbatim>\<open>else\<close> block, so the C function is called with the zero
  value of the outer \<^verbatim>\<open>tgid\<close>. Every failure sets the continue flag, whatever the
  daemon's \<^verbatim>\<open>SeccompListenerContinue\<close>.\<close>

definition HandleBpfSyscall ::
  "State \<Rightarrow> packages \<Rightarrow> host \<Rightarrow> bpf_host \<Rightarrow> Instance \<Rightarrow> Iovec \<Rightarrow> outcome" where
  "HandleBpfSyscall s p h bh c siov =
     (if IsFalseOrEmpty p (cfg (ExpandedConfig c) ''security.syscalls.intercept.bpf.devices'')
      then syscall_continue (resp siov)
      else
        (let found = (if PidFdsThread s then Some (- 1)
                      else (case FindTGID h of
                              None \<Rightarrow> None
                            | Some t \<Rightarrow> if t = - 1 then None else Some 0))
         in case found of
              None \<Rightarrow> syscall_continue (resp siov)
            | Some tgid \<Rightarrow>
                (case handle_bpf_syscall bh (sint (req_pid (req siov))) tgid (req siov)
                        (resp siov) (PidFdsThread s) of
                   (r, rs) \<Rightarrow> if r < 0 then syscall_continue rs else returns 0 rs)))"

subsection \<open>The dispatcher\<close>

text \<open>The daemon with everything it depends on: its state, the packages and the host
  behind the emulators, \<^verbatim>\<open>filepath.Join\<close>, the arch/syscall table it was compiled
  with and the sizes cached from \<^verbatim>\<open>SECCOMP_GET_NOTIF_SIZES\<close> when it started.\<close>

record Server =
  srv_state :: State
  srv_packages :: packages
  srv_host :: host
  srv_sysinfo :: sysinfo_host
  srv_bpf :: bpf_host
  srv_join :: "string \<Rightarrow> string \<Rightarrow> string"
  srv_table :: "incus_seccomp_data_arch list"
  expected_sizes :: seccomp_notif_sizes

definition handleSyscall :: "Server \<Rightarrow> Instance \<Rightarrow> Iovec \<Rightarrow> result" where
  "handleSyscall srv c siov0 =
     (case seccomp_notify_get_syscall (srv_table srv) (req siov0) (resp siov0) of
        (k, r) \<Rightarrow>
          (let siov = siov0\<lparr>resp := r\<rparr>;
               s = srv_state srv;
               h = srv_host srv
           in
           if k = INCUS_SECCOMP_NOTIFY_MKNOD then Returns (HandleMknodSyscall s h c siov)
           else if k = INCUS_SECCOMP_NOTIFY_MKNODAT then Returns (HandleMknodatSyscall s h c siov)
           else if k = INCUS_SECCOMP_NOTIFY_SETXATTR then HandleSetxattrSyscall s h c siov
           else if k = INCUS_SECCOMP_NOTIFY_MOUNT then
             Returns (HandleMountSyscall s (srv_packages srv) h (srv_join srv) c siov)
           else if k = INCUS_SECCOMP_NOTIFY_BPF then
             Returns (HandleBpfSyscall s (srv_packages srv) h (srv_bpf srv) c siov)
           else if k = INCUS_SECCOMP_NOTIFY_SCHED_SETSCHEDULER then
             Returns (HandleSchedSetschedulerSyscall s h c siov)
           else if k = INCUS_SECCOMP_NOTIFY_SYSINFO then
             HandleSysinfoSyscall (srv_sysinfo srv) c siov
           else Returns (returns (- EINVAL) (resp siov))))"

text \<open>\<^verbatim>\<open>SendSeccompIovec\<close> updates the response and sends the first three parts of the
  frame; the response it sends is what the kernel applies.\<close>

definition SendSeccompIovec :: "seccomp_notif_resp \<Rightarrow> int \<Rightarrow> 32 word \<Rightarrow> seccomp_notif_resp" where
  "SendSeccompIovec rs errno flags = seccomp_notify_update_response rs (C_int errno) flags"

text \<open>\<^verbatim>\<open>HandleValid\<close>: the daemon crashes when the emulator panics; otherwise one
  response is sent, after what the emulator did (nothing when no instance is found).
  \<open>findPID\<close> is \<open>None\<close> for its error.\<close>

datatype handled = Crashed | Replied seccomp_notif_resp "outcome option"

definition HandleValid :: "Server \<Rightarrow> (int \<Rightarrow> Instance option) \<Rightarrow> Iovec \<Rightarrow> handled" where
  "HandleValid srv findPID siov =
     (case findPID (sint (monitor_pid (msg siov))) of
        None \<Rightarrow>
          (if SeccompListenerContinue (srv_state srv)
           then Replied (SendSeccompIovec (resp siov) 0 seccompUserNotifFlagContinue) None
           else Replied (SendSeccompIovec (resp siov) (- EPERM) 0) None)
      | Some c \<Rightarrow>
          (case handleSyscall srv c siov of
             Panics \<Rightarrow> Crashed
           | Returns done \<Rightarrow> Replied (SendSeccompIovec (out_resp done) (ret done) 0) (Some done)))"

subsection \<open>Frame validation and the receive loop\<close>

text \<open>The sizes of the three fixed parts of a frame on an LP64 host:
  \<^verbatim>\<open>sizeof(struct seccomp_notify_proxy_msg)\<close> is 32, \<^verbatim>\<open>sizeof(struct seccomp_notif)\<close>
  is 80 and \<^verbatim>\<open>sizeof(struct seccomp_notif_resp)\<close> is 24.\<close>

definition SECCOMP_PROXY_MSG_SIZE :: nat where "SECCOMP_PROXY_MSG_SIZE = 32"
definition SECCOMP_NOTIFY_SIZE :: nat where "SECCOMP_NOTIFY_SIZE = 80"
definition SECCOMP_RESPONSE_SIZE :: nat where "SECCOMP_RESPONSE_SIZE = 24"

definition SECCOMP_MSG_SIZE_MIN :: nat where
  "SECCOMP_MSG_SIZE_MIN = SECCOMP_PROXY_MSG_SIZE + SECCOMP_NOTIFY_SIZE + SECCOMP_RESPONSE_SIZE"

text \<open>\<^verbatim>\<open>IsValidSeccompIovec(size)\<close>, against the cached sizes.\<close>

definition IsValidSeccompIovec :: "seccomp_notif_sizes \<Rightarrow> Iovec \<Rightarrow> nat \<Rightarrow> bool" where
  "IsValidSeccompIovec expected siov bytes =
     (if bytes < SECCOMP_MSG_SIZE_MIN then False
      else if msg_reserved (msg siov) \<noteq> 0 then False
      else if sz_seccomp_notif (msg_sizes (msg siov)) \<noteq> sz_seccomp_notif expected then False
      else if sz_seccomp_notif_resp (msg_sizes (msg siov)) \<noteq> sz_seccomp_notif_resp expected
      then False
      else if sz_seccomp_data (msg_sizes (msg siov)) \<noteq> sz_seccomp_data expected then False
      else True)"

text \<open>What is done on the connection and with the descriptors of a frame.
  \<^verbatim>\<open>PutSeccompIovec\<close> closes the descriptors of the frame that were received.\<close>

datatype io = Sendmsg_empty | Close_fds "int list" | Close_connection

definition PutSeccompIovec :: "Iovec \<Rightarrow> io" where
  "PutSeccompIovec siov =
     Close_fds (filter (\<lambda>fd. 0 \<le> fd) [memFd siov, procFd siov, notifyFd siov])"

text \<open>\<^verbatim>\<open>HandleInvalid\<close>: a message without any part, then the frame is released.\<close>

definition HandleInvalid :: "Iovec \<Rightarrow> io list" where
  "HandleInvalid siov = [Sendmsg_empty, PutSeccompIovec siov]"

text \<open>The receive loop of a connection in \<^verbatim>\<open>NewSeccompServer\<close>, over what the
  successive receives return: an error, or the number of bytes and the frame. Each frame
  is handed to a goroutine; only a failed receive closes the connection and ends the
  loop. A list that ends without an error is a connection still open, the loop waiting
  in the next receive.\<close>

datatype received = Receive_error | Frame nat Iovec

datatype spawned = Go_HandleValid Iovec | Go_HandleInvalid Iovec | Closed

fun receive_loop :: "seccomp_notif_sizes \<Rightarrow> received list \<Rightarrow> spawned list" where
  "receive_loop expected [] = []"
| "receive_loop expected (Receive_error # later) = [Closed]"
| "receive_loop expected (Frame bytes siov # later) =
     (if IsValidSeccompIovec expected siov bytes then Go_HandleValid siov
      else Go_HandleInvalid siov) # receive_loop expected later"

subsection \<open>Concrete daemons, hosts and frames\<close>

text \<open>A daemon without continue support (\<open>strict_state\<close>) and one with it, an
  unprivileged instance whose id map shifts by 1000000, a host whose tasks all run as the
  root of that instance and whose helper always succeeds, and a few frames. Memory of the
  target: \<^verbatim>\<open>"/dev/sda"\<close> at 0x7000, \<^verbatim>\<open>"/dev/null"\<close> at 0x7100, \<^verbatim>\<open>"/x"\<close> at 0x7200,
  \<^verbatim>\<open>"user.comment"\<close> at 0x7300, the byte \<^verbatim>\<open>v\<close> at 0x7400, a zero
  \<^verbatim>\<open>sched_param\<close> at 0x7500 and \<^verbatim>\<open>"ext4"\<close> at 0x7600.\<close>

definition strict_state :: State where
  "strict_state =
     \<lparr>SeccompListener = True, SeccompListenerContinue = False, SeccompListenerAddfd = True,
      RunningInUserNS = False, PidFds = True, PidFdsThread = False,
      LXCFeatures = (\<lambda>feature. True)\<rparr>"

definition permissive_state :: State where
  "permissive_state = strict_state\<lparr>SeccompListenerContinue := True\<rparr>"

definition sample_packages :: packages where
  "sample_packages =
     \<lparr>IsTrue = (\<lambda>v. v = ''true''),
      IsFalseOrEmpty = (\<lambda>v. v = [] \<or> v = ''false''),
      ArchitectureName = (\<lambda>a. if a = 2 then Inr ''x86_64'' else Inl ''Architecture isn't supported''),
      NewContainer = True,
      SetConfigItem = None\<rparr>"

definition sample_memory :: "64 word \<Rightarrow> nat \<Rightarrow> string option" where
  "sample_memory addr n =
     (if addr = 0x7000 then Some (take n (''/dev/sda'' @ [NUL]))
      else if addr = 0x7100 then Some (take n (''/dev/null'' @ [NUL]))
      else if addr = 0x7200 then Some (take n (''/x'' @ [NUL]))
      else if addr = 0x7300 then Some (take n (''user.comment'' @ [NUL]))
      else if addr = 0x7400 then Some (take n ''v'')
      else if addr = 0x7500 then Some (take n [NUL, NUL, NUL, NUL])
      else if addr = 0x7600 then Some (take n (''ext4'' @ [NUL]))
      else None)"

definition sample_host :: host where
  "sample_host =
     \<lparr>TaskIDs = (\<lambda>pid. Some (1000000, 1000000, 1000000, 1000000)),
      PidFdOpen = (\<lambda>pid. True),
      pread = sample_memory,
      make_bytes = (\<lambda>n. True),
      RunCommandSplit = (\<lambda>argv. None),
      PathExists = (\<lambda>p. False),
      PidfdSendSignal = True,
      FindTGID = Some 4242\<rparr>"

definition sample_idmap :: idmap_set where
  "sample_idmap =
     \<lparr>ShiftFromNS = (\<lambda>uid gid. (uid - 1000000, gid - 1000000)),
      ShiftIntoNS = (\<lambda>uid gid. (uid + 1000000, gid + 1000000))\<rparr>"

definition sample_instance :: Instance where
  "sample_instance =
     \<lparr>Name = ''c1'', ExpandedConfig = Map.empty, IsPrivileged = False, Architecture = 2,
      CurrentIdmap = Some sample_idmap, DiskIdmap = Some None,
      IdmappedStorage = (\<lambda>p fs. ''none''),
      InsertSeccompUnixDevice = (\<lambda>prefix dev pid. True)\<rparr>"

definition sample_sysinfo_host :: sysinfo_host where
  "sample_sysinfo_host =
     \<lparr>Sysinfo_call = False, NewFileReadWriter = (\<lambda>pid. False), ReadStat = (\<lambda>pid. None),
      UptimeSince = (\<lambda>age. 0), GetProcessesUsage = None, GetMemoryStats = None,
      GetEffectiveMemoryLimit = None, GetMemoryUsage = None, SupportsSwap = False,
      GetMemorySwapLimit = None, GetMemorySwapUsage = None,
      ToNative32 = (\<lambda>m. []), ToNative = (\<lambda>m. []), Pwrite = (\<lambda>addr b. False)\<rparr>"

definition sample_bpf_host :: bpf_host where
  "sample_bpf_host =
     \<lparr>sizeof_bpf_attr = 144, pread_attr = (\<lambda>addr n. Inl 14), pidfd_open = (\<lambda>pid thread. Inl 3),
      notif_id_valid = (\<lambda>i. None), malloc = (\<lambda>n. True), pread_insn = (\<lambda>addr n. Inl 14),
      pread_license = (\<lambda>addr. None), bpf_syscall = (\<lambda>cmd attr. Inl 1),
      notif_addfd = (\<lambda>fd. Inl 9), pidfd_getfd = (\<lambda>pidfd fd. Inl 9),
      filetable_shared = (\<lambda>tgid pid. False), process_still_alive = (\<lambda>pidfd. False)\<rparr>"

definition sample_sizes :: seccomp_notif_sizes where
  "sample_sizes = \<lparr>sz_seccomp_notif = 80, sz_seccomp_notif_resp = 24, sz_seccomp_data = 64\<rparr>"

definition strict_server :: Server where
  "strict_server =
     \<lparr>srv_state = strict_state, srv_packages = sample_packages, srv_host = sample_host,
      srv_sysinfo = sample_sysinfo_host, srv_bpf = sample_bpf_host,
      srv_join = (\<lambda>dir rel. dir @ rel), srv_table = seccomp_notify_syscall_table,
      expected_sizes = sample_sizes\<rparr>"

definition frame_of :: "seccomp_data \<Rightarrow> Iovec" where
  "frame_of d =
     \<lparr>ucred_pid = 4000, memFd = 11, procFd = 10, notifyFd = 12,
      msg = \<lparr>msg_reserved = 0, monitor_pid = 4000, init_pid = 4001, msg_sizes = sample_sizes,
             cookie_len = 0\<rparr>,
      req = \<lparr>req_id = 7, req_pid = 4242, req_flags = 0, req_data = d\<rparr>,
      resp = \<lparr>resp_id = 0, resp_val = 0, resp_error = 0, resp_flags = 0\<rparr>\<rparr>"

definition syscall_data :: "32 word \<Rightarrow> 32 word \<Rightarrow> 64 word \<Rightarrow> 64 word \<Rightarrow> 64 word \<Rightarrow> 64 word \<Rightarrow> seccomp_data" where
  "syscall_data a n x0 x1 x2 x3 =
     \<lparr>nr = n, arch = a, instruction_pointer = 0,
      arg0 = x0, arg1 = x1, arg2 = x2, arg3 = x3, arg4 = 0, arg5 = 0\<rparr>"

definition mknod_sda :: seccomp_data where
  "mknod_sda = syscall_data AUDIT_ARCH_X86_64 133 0x7000 0x6180 0x800 0"


definition mknodat_fd5 :: seccomp_data where
  "mknodat_fd5 = syscall_data AUDIT_ARCH_X86_64 259 5 0x7100 0x21B6 0x103"

definition mknod_null :: seccomp_data where
  "mknod_null = syscall_data AUDIT_ARCH_X86_64 133 0x7100 0x21B6 0x103 0"

definition sched_negative_policy :: seccomp_data where
  "sched_negative_policy = syscall_data AUDIT_ARCH_X86_64 144 1 0xFFFFFFFF 0x7500 0"

definition setxattr_user :: seccomp_data where
  "setxattr_user = (syscall_data AUDIT_ARCH_X86_64 188 0x7200 0x7300 0x7400 1)"

definition enoano_host :: host where
  "enoano_host = sample_host\<lparr>RunCommandSplit := (\<lambda>argv. Some ''55'')\<rparr>"

definition enomedium_host :: host where
  "enomedium_host = sample_host\<lparr>RunCommandSplit := (\<lambda>argv. Some ''123'')\<rparr>"

definition null_args :: MknodArgs where
  "null_args = \<lparr>cMode = 0x21B6, cDev = 0x103, cPid = 4242, path = ''/dev/null''\<rparr>"

definition enoano_server :: Server where
  "enoano_server = strict_server\<lparr>srv_host := enoano_host\<rparr>"

definition aarch64_minus_one :: seccomp_data where
  "aarch64_minus_one = syscall_data AUDIT_ARCH_AARCH64 (- 1) 0 0 0 0"

definition unknown_nr :: seccomp_data where
  "unknown_nr = syscall_data AUDIT_ARCH_X86_64 999 0 0 0 0"

definition mount_ext4 :: seccomp_data where
  "mount_ext4 = syscall_data AUDIT_ARCH_X86_64 165 0 0x7200 0x7600 0"

section \<open>Verified properties\<close>

subsection \<open>Evaluation of concrete inputs\<close>

lemma length_read_into [simp]: "length (read_into buf bytes) = length buf"
  by (simp add: read_into_def)

lemma length_zeroed [simp]: "length (zeroed n) = n"
  by (simp add: zeroed_def)

lemma read_into_Nil [simp]: "read_into buf [] = buf"
  by (simp add: read_into_def)

lemma read_into_Cons:
  "0 < length buf \<Longrightarrow> read_into buf (x # xs) = x # read_into (tl buf) xs"
  by (cases buf) (simp_all add: read_into_def)

lemma GoString_Nil [simp]: "GoString [] = []"
  by (simp add: GoString_def)

lemma GoString_Cons: "GoString (x # xs) = (if x = NUL then [] else x # GoString xs)"
  by (simp add: GoString_def)

lemma tl_zeroed [simp]: "tl (zeroed n) = zeroed (n - 1)"
  by (cases n) (simp_all add: zeroed_def)

lemma zeroed_0 [simp]: "zeroed 0 = []"
  by (simp add: zeroed_def)

lemma GoString_terminated:
  "NUL \<notin> set str \<Longrightarrow> length str < length buf \<Longrightarrow>
   GoString (read_into buf (str @ NUL # rest)) = str"
proof -
  assume nul: "NUL \<notin> set str" and len: "length str < length buf"
  then obtain k where k: "length buf - length str = Suc k"
    by (cases "length buf - length str") auto
  have "takeWhile (\<lambda>c. c \<noteq> NUL) (str @ NUL # more) = str" for more
    using nul by (induction str) auto
  then show ?thesis
    using len by (simp add: GoString_def read_into_def k)
qed

lemmas eval_frame =
  strict_server_def frame_of_def syscall_data_def strict_state_def sample_host_def
  sample_instance_def sample_idmap_def sample_memory_def sample_sizes_def

lemmas eval_table =
  seccomp_notify_syscall_table_def mk_row_def AUDIT_ARCH_X86_64_def
  INCUS_SECCOMP_NOTIFY_MKNOD_def INCUS_SECCOMP_NOTIFY_MKNODAT_def
  INCUS_SECCOMP_NOTIFY_SETXATTR_def INCUS_SECCOMP_NOTIFY_MOUNT_def
  INCUS_SECCOMP_NOTIFY_BPF_def INCUS_SECCOMP_NOTIFY_SCHED_SETSCHEDULER_def
  INCUS_SECCOMP_NOTIFY_SYSINFO_def

lemmas eval_reply =
  HandleValid_def handleSyscall_def seccomp_notify_get_syscall_def SendSeccompIovec_def
  seccomp_notify_update_response_def C_int_def returns_def syscall_continue_def
  seccompUserNotifFlagContinue_def

lemmas eval_show = show_int_def digit_char_def show_octal_alt_def

lemmas eval_memory = read_into_Cons GoString_Cons PathMax_def NUL_def

lemma sda_not_allowed: "device_allowed 0x800 0x6180 = - EPERM"
  by (simp add: device_allowed_def makedev_def S_IFMT_def S_IFCHR_def)

subsection \<open>mknodat: the directory descriptor\<close>

lemma uint_ucast_64_32: "uint (ucast (x::64 word) :: 32 word) = uint x mod 2 ^ 32"
  by (simp add: unsigned_ucast_eq take_bit_eq_mod)

lemma dirfd_is_AT_FDCWD:
  "((ucast (x::64 word) :: 32 word) = AT_FDCWD) = (uint x mod 2 ^ 32 = 2 ^ 32 - 100)"
proof -
  have "((ucast x :: 32 word) = AT_FDCWD) = (uint (ucast x :: 32 word) = uint AT_FDCWD)"
    by (simp add: word_uint_eq_iff)
  also have "uint AT_FDCWD = 2 ^ 32 - 100" by (simp add: AT_FDCWD_def)
  finally show ?thesis by (simp add: uint_ucast_64_32)
qed

text \<open>
  Claim C10. \<^verbatim>\<open>HandleMknodatSyscall\<close> compares only the low 32 bits of \<^verbatim>\<open>args[0]\<close>
  with \<^verbatim>\<open>AT_FDCWD\<close>: a value congruent to \<^verbatim>\<open>-100\<close> modulo \<open>2^32\<close> passes on to the
  device check, the read of the path and the device syscall; every other value is
  refused without a helper invocation, with \<^verbatim>\<open>-EINVAL\<close> when the daemon cannot
  continue syscalls and with the continue flag when it can.
\<close>

theorem mknodat_dirfd_low_32_bits:
  fixes s h c siov
  defines "d \<equiv> req_data (req siov)"
  defines "allowed \<equiv> device_allowed (arg3 d) (ucast (arg2 d))"
  defines "checked \<equiv> (resp siov)\<lparr>resp_error := allowed\<rparr>"
  shows "HandleMknodatSyscall s h c siov =
    (if uint (arg0 d) mod 2 ^ 32 = 2 ^ 32 - 100 then
       (if allowed \<noteq> 0 then
          (if SeccompListenerContinue s then syscall_continue checked
           else returns allowed checked)
        else
          (case pread h (arg1 d) PathMax of
             None \<Rightarrow>
               (if SeccompListenerContinue s then syscall_continue checked
                else returns (- EPERM) checked)
           | Some bytes \<Rightarrow>
               doDeviceSyscall s h c
                 \<lparr>cMode = ucast (arg2 d), cDev = arg3 d, cPid = req_pid (req siov),
                  path = GoString (read_into (zeroed PathMax) bytes)\<rparr>
                 (siov\<lparr>resp := checked\<rparr>)))
     else
       \<lparr>ret = (if SeccompListenerContinue s then 0 else - EINVAL),
        out_resp = (if SeccompListenerContinue s
                    then (resp siov)\<lparr>resp_error := 0,
                           resp_flags := resp_flags (resp siov) OR seccompUserNotifFlagContinue\<rparr>
                    else resp siov),
        bridge = [], devices = [], writes = []\<rparr>)"
  unfolding d_def allowed_def checked_def
  by (simp add: HandleMknodatSyscall_def Let_def dirfd_is_AT_FDCWD syscall_continue_def
      returns_def seccomp_notify_update_response_def split: option.splits)

theorem mknodat_dirfd_witness:
  "HandleMknodatSyscall strict_state sample_host sample_instance (frame_of mknodat_fd5) =
     \<lparr>ret = - 22,
      out_resp = \<lparr>resp_id = 0, resp_val = 0, resp_error = 0, resp_flags = 0\<rparr>,
      bridge = [], devices = [], writes = []\<rparr>"
  using mknodat_dirfd_low_32_bits [of strict_state sample_host sample_instance "frame_of mknodat_fd5"]
  by (simp add: frame_of_def mknodat_fd5_def syscall_data_def strict_state_def EINVAL_def)

subsection \<open>mknod: a device outside the allow-set\<close>

text \<open>
  Claim C2 (the code departs from it). On x86_64, \<^verbatim>\<open>mknod("/dev/sda", 0060600, makedev(8,0))\<close>
  is not in the allow-set and the daemon cannot continue syscalls. The helper is not
  invoked, as claimed, but the reply is \<^verbatim>\<open>(error=0, flags=0)\<close> and not
  \<^verbatim>\<open>(error=-EPERM, flags=0)\<close>: \<^verbatim>\<open>HandleMknodSyscall\<close> returns
  \<^verbatim>\<open>int(siov.resp.error)\<close>, which the classifier has just set to 0.
\<close>

theorem mknod_sda_strict_reply:
  "HandleValid strict_server (\<lambda>pid. Some sample_instance) (frame_of mknod_sda) =
     Replied \<lparr>resp_id = 7, resp_val = 0, resp_error = 0, resp_flags = 0\<rparr>
       (Some \<lparr>ret = 0,
              out_resp = \<lparr>resp_id = 7, resp_val = 0, resp_error = 0, resp_flags = 0\<rparr>,
              bridge = [], devices = [], writes = []\<rparr>)"
  by (simp add: HandleValid_def handleSyscall_def seccomp_notify_get_syscall_def
      mknod_sda_def strict_server_def frame_of_def syscall_data_def
      seccomp_notify_syscall_table_def mk_row_def AUDIT_ARCH_X86_64_def
      INCUS_SECCOMP_NOTIFY_MKNOD_def HandleMknodSyscall_def
      sda_not_allowed EPERM_def strict_state_def returns_def SendSeccompIovec_def
      seccomp_notify_update_response_def C_int_def)

subsection \<open>sched_setscheduler: a negative policy\<close>

text \<open>
  Claim C3 (the code departs from it). A caller that is root in its namespace asks for
  policy \<^verbatim>\<open>-1\<close> on pid 1. The test \<^verbatim>\<open>args.policy < 0\<close> reads the zero value of the
  field, so the request is not refused: the helper is invoked with policy \<^verbatim>\<open>-1\<close> and
  the reply is \<^verbatim>\<open>(error=0, flags=0)\<close>, not \<^verbatim>\<open>-EINVAL\<close>.
\<close>

theorem sched_setscheduler_negative_policy:
  "HandleValid strict_server (\<lambda>pid. Some sample_instance) (frame_of sched_negative_policy) =
     Replied \<lparr>resp_id = 7, resp_val = 0, resp_error = 0, resp_flags = 0\<rparr>
       (Some \<lparr>ret = 0,
              out_resp = \<lparr>resp_id = 7, resp_val = 0, resp_error = 0, resp_flags = 0\<rparr>,
              bridge = [[''forksyscall'', ''sched_setscheduler'', ''4242'', ''3'', ''1'', ''1'',
                         ''-1'', ''0'']],
              devices = [], writes = []\<rparr>)"
  by (simp add: eval_reply eval_frame eval_table eval_show sched_negative_policy_def
      HandleSchedSetschedulerSyscall_def SchedSetschedulerArgs_zero_def MakePidFd_def
      INCUS_SCHED_PARAM_SIZE_def read_into_def zeroed_def sched_priority_of_def NUL_def
      sched_setscheduler_argv_def forksyscall_errno_def Let_def)

subsection \<open>setxattr: names that are not whitelisted\<close>

text \<open>
  Claim C9. When the credentials, the id map and the three reads succeed and the pair
  (name, value) is not (\<^verbatim>\<open>"trusted.overlay.opaque"\<close>, \<^verbatim>\<open>"y"\<close>), a daemon that cannot
  continue syscalls still invokes the helper, with the whiteout argument \<^verbatim>\<open>0\<close>, and
  returns the helper's errno; a daemon that can continue hands the syscall back to the
  kernel with the continue flag and invokes nothing.
\<close>

theorem setxattr_other_names_reach_bridge:
  fixes s h c siov
  defines "d \<equiv> req_data (req siov)"
  defines "pid \<equiv> uint (req_pid (req siov))"
  assumes ids: "TaskIDs h pid = Some (uid, gid, fsuid, fsgid)"
    and idmap: "CurrentIdmap c = Some idmapset"
    and read_path: "pread h (arg0 d) PathMax = Some path_bytes"
    and read_name: "pread h (arg1 d) PathMax = Some name_bytes"
    and positive: "0 < sint (arg3 d)"
    and allocated: "make_bytes h (nat (sint (arg3 d)))"
    and read_value: "pread h (arg2 d) (nat (sint (arg3 d))) = Some value_bytes"
    and name: "args_name = GoString (read_into (read_into (zeroed PathMax) path_bytes) name_bytes)"
    and val: "args_value = read_into (zeroed (nat (sint (arg3 d)))) value_bytes"
    and other: "\<not> (args_name = ''trusted.overlay.opaque'' \<and> args_value = ''y'')"
    and argv: "argv = setxattr_argv pid (MakePidFd s h pid)
                 (fst (ShiftFromNS idmapset uid gid)) (snd (ShiftFromNS idmapset uid gid))
                 (fst (ShiftFromNS idmapset fsuid fsgid)) (snd (ShiftFromNS idmapset fsuid fsgid))
                 args_name (GoString (read_into (zeroed PathMax) path_bytes))
                 (sint (ucast (arg4 d) :: 32 word)) 0 (sint (arg3 d)) args_value"
  shows "HandleSetxattrSyscall s h c siov =
           (if SeccompListenerContinue s then
              Returns \<lparr>ret = 0,
                       out_resp = (resp siov)\<lparr>resp_error := 0,
                          resp_flags := resp_flags (resp siov) OR seccompUserNotifFlagContinue\<rparr>,
                       bridge = [], devices = [], writes = []\<rparr>
            else
              Returns \<lparr>ret = forksyscall_errno (RunCommandSplit h argv),
                       out_resp = resp siov,
                       bridge = [argv], devices = [], writes = []\<rparr>)
         \<and> argv ! 11 = show_int 0"
proof -
  have whiteout: "argv ! 11 = show_int 0"
    by (simp add: argv setxattr_argv_def)
  have "HandleSetxattrSyscall s h c siov =
           (if SeccompListenerContinue s then Returns (syscall_continue (resp siov))
            else Returns ((returns (forksyscall_errno (RunCommandSplit h argv)) (resp siov))
                            \<lparr>bridge := [argv]\<rparr>))"
    using ids idmap read_path read_name positive allocated read_value other
    unfolding HandleSetxattrSyscall_def d_def pid_def name val argv
    by (auto simp add: Let_def split_beta)
  then show ?thesis
    using whiteout
    by (simp add: syscall_continue_def returns_def seccomp_notify_update_response_def)
qed

theorem setxattr_other_names_witness:
  "HandleSetxattrSyscall strict_state sample_host sample_instance (frame_of setxattr_user) =
     Returns \<lparr>ret = 0,
              out_resp = \<lparr>resp_id = 0, resp_val = 0, resp_error = 0, resp_flags = 0\<rparr>,
              bridge = [[''forksyscall'', ''setxattr'', ''4242'', ''3'', ''0'', ''0'', ''0'', ''0'',
                         ''user.comment'', ''/x'', ''0'', ''0'', ''1'', ''v'']],
              devices = [], writes = []\<rparr>"
  using setxattr_other_names_reach_bridge
    [where s = strict_state and h = sample_host and c = sample_instance
       and siov = "frame_of setxattr_user" and uid = 1000000 and gid = 1000000
       and fsuid = 1000000 and fsgid = 1000000 and idmapset = sample_idmap
       and path_bytes = "''/x'' @ [NUL]" and name_bytes = "''user.comment'' @ [NUL]"
       and value_bytes = "''v''", OF _ _ _ _ _ _ _ refl refl _ refl]
  by (simp add: eval_frame eval_show eval_memory setxattr_user_def setxattr_argv_def
      MakePidFd_def forksyscall_errno_def)

subsection \<open>mknod and mknodat: the errno of the helper\<close>

text \<open>
  Claim C8, as amended. When the helper of an accepted mknod or mknodat fails and reports
  the errno \<^verbatim>\<open>ENOMEDIUM\<close>, the device is handed to \<^verbatim>\<open>InsertSeccompUnixDevice\<close> and
  the emulator returns 0 when that callback succeeds and \<^verbatim>\<open>-EPERM\<close> when it fails.
  For every other errno there is no fallback: \<^verbatim>\<open>ENOANO\<close> and an error stream that is
  not a number give \<^verbatim>\<open>-EPERM\<close>, any other errno is returned negated.
\<close>

theorem forkmknod_errno_handling:
  fixes s h c args siov
  defines "requestPID \<equiv> sint (cPid args)"
  defines "dev \<equiv> mknod_device args"
  defines "prefix \<equiv> ''forkmknod.unix.'' @ show_int requestPID"
  assumes ids: "TaskIDs h requestPID = Some ids"
    and argv: "argv = forkmknod_argv s h dev requestPID ids"
    and failed: "RunCommandSplit h argv = Some stderr"
  shows "doDeviceSyscall s h c args siov =
     (case Atoi stderr of
        None \<Rightarrow>
          \<lparr>ret = - EPERM, out_resp = resp siov, bridge = [argv], devices = [], writes = []\<rparr>
      | Some errno \<Rightarrow>
          if errno = ENOMEDIUM then
            \<lparr>ret = (if InsertSeccompUnixDevice c prefix dev requestPID then 0 else - EPERM),
             out_resp = resp siov, bridge = [argv],
             devices = [(prefix, dev, requestPID)], writes = []\<rparr>
          else if errno = ENOANO then
            \<lparr>ret = - EPERM, out_resp = resp siov, bridge = [argv], devices = [], writes = []\<rparr>
          else
            \<lparr>ret = (if errno = - (2 ^ 63) then errno else - errno),
             out_resp = resp siov, bridge = [argv], devices = [], writes = []\<rparr>)"
proof (cases "Atoi stderr")
  case None
  then show ?thesis
    using ids failed
    unfolding requestPID_def dev_def prefix_def argv
    by (simp add: doDeviceSyscall_def CallForkmknod_def forksyscall_errno_def returns_def
        Let_def EPERM_def ENOMEDIUM_def)
next
  case (Some errno)
  have range: "- (2 ^ 63) \<le> errno"
    using Some by (simp add: Atoi_def Let_def split: if_splits)
  show ?thesis
    using ids failed Some range
    unfolding requestPID_def dev_def prefix_def argv
    by (simp add: doDeviceSyscall_def CallForkmknod_def forksyscall_errno_def returns_def
        Let_def neg_int_def EPERM_def ENOMEDIUM_def ENOANO_def)
qed

theorem forkmknod_enomedium_witness:
  "doDeviceSyscall strict_state enomedium_host sample_instance null_args (frame_of mknod_null) =
     \<lparr>ret = 0,
      out_resp = \<lparr>resp_id = 0, resp_val = 0, resp_error = 0, resp_flags = 0\<rparr>,
      bridge = [[''forksyscall'', ''mknod'', ''4242'', ''3'', ''/dev/null'', ''8630'', ''259'',
                 ''1000000'', ''1000000'', ''1000000'', ''1000000'']],
      devices = [(''forkmknod.unix.4242'', mknod_device null_args, 4242)],
      writes = []\<rparr>"
  using forkmknod_errno_handling
    [where s = strict_state and h = enomedium_host and c = sample_instance
       and args = null_args and siov = "frame_of mknod_null"
       and ids = "(1000000, 1000000, 1000000, 1000000)" and stderr = "''123''", OF _ refl]
  by (simp add: eval_frame eval_show enomedium_host_def null_args_def forkmknod_argv_def
      mknod_device_def dev_get_def cfg_def MakePidFd_def Atoi_def is_digit_def
      digits_value_def ENOMEDIUM_def Major_def Minor_def)

text \<open>The claim as stated fails for the errno \<^verbatim>\<open>ENOANO\<close> (55): it is not
  \<^verbatim>\<open>ENOMEDIUM\<close>, and the reply is \<^verbatim>\<open>-EPERM\<close>, not \<^verbatim>\<open>-ENOANO\<close>.\<close>

theorem forkmknod_enoano_counterexample:
  "HandleValid enoano_server (\<lambda>pid. Some sample_instance) (frame_of mknod_null) =
     Replied \<lparr>resp_id = 7, resp_val = 0, resp_error = - EPERM, resp_flags = 0\<rparr>
       (Some \<lparr>ret = - EPERM,
              out_resp = \<lparr>resp_id = 7, resp_val = 0, resp_error = 0, resp_flags = 0\<rparr>,
              bridge = [[''forksyscall'', ''mknod'', ''4242'', ''3'', ''/dev/null'', ''8630'',
                         ''259'', ''1000000'', ''1000000'', ''1000000'', ''1000000'']],
              devices = [], writes = []\<rparr>)
   \<and> RunCommandSplit (srv_host enoano_server)
         [''forksyscall'', ''mknod'', ''4242'', ''3'', ''/dev/null'', ''8630'', ''259'',
          ''1000000'', ''1000000'', ''1000000'', ''1000000''] = Some ''55''
   \<and> Atoi ''55'' = Some ENOANO \<and> ENOANO \<noteq> ENOMEDIUM \<and> - EPERM \<noteq> - ENOANO"
  by (simp add: eval_reply eval_frame eval_table eval_show eval_memory enoano_server_def
      enoano_host_def mknod_null_def HandleMknodSyscall_def device_allowed_def makedev_def
      S_IFMT_def S_IFCHR_def doDeviceSyscall_def CallForkmknod_def forkmknod_argv_def
      mknod_device_def dev_get_def cfg_def MakePidFd_def forksyscall_errno_def Atoi_def
      is_digit_def digits_value_def ENOMEDIUM_def ENOANO_def EPERM_def Major_def Minor_def
      Let_def)

subsection \<open>The classifier and the dispatcher\<close>

lemma scan_first_row_of_arch:
  "seccomp_notify_scan tbl d =
     (case find (\<lambda>entry. row_arch entry = arch d) tbl of
        None \<Rightarrow> - EINVAL
      | Some entry \<Rightarrow>
          if nr_mknod entry = nr d then INCUS_SECCOMP_NOTIFY_MKNOD
          else if nr_mknodat entry = nr d then INCUS_SECCOMP_NOTIFY_MKNODAT
          else if nr_setxattr entry = nr d then INCUS_SECCOMP_NOTIFY_SETXATTR
          else if nr_mount entry = nr d then INCUS_SECCOMP_NOTIFY_MOUNT
          else if nr_bpf entry = nr d then INCUS_SECCOMP_NOTIFY_BPF
          else if nr_sched_setscheduler entry = nr d then INCUS_SECCOMP_NOTIFY_SCHED_SETSCHEDULER
          else if nr_sysinfo entry = nr d then INCUS_SECCOMP_NOTIFY_SYSINFO
          else - EINVAL)"
  by (induction tbl) simp_all

lemma unknown_is_answered_EINVAL:
  assumes "seccomp_notify_scan (srv_table srv) (req_data (req siov)) = - EINVAL"
  shows "HandleValid srv (\<lambda>pid. Some c) siov =
           Replied \<lparr>resp_id = req_id (req siov), resp_val = 0, resp_error = - EINVAL,
                    resp_flags = req_flags (req siov)\<rparr>
             (Some \<lparr>ret = - EINVAL,
                    out_resp = \<lparr>resp_id = req_id (req siov), resp_val = 0, resp_error = 0,
                                resp_flags = req_flags (req siov)\<rparr>,
                    bridge = [], devices = [], writes = []\<rparr>)"
  using assms
  by (simp add: eval_reply eval_table EINVAL_def)

lemmas eval_arch =
  AUDIT_ARCH_X86_64_def AUDIT_ARCH_I386_def AUDIT_ARCH_AARCH64_def AUDIT_ARCH_ARM_def
  AUDIT_ARCH_ARMEB_def AUDIT_ARCH_S390_def AUDIT_ARCH_S390X_def AUDIT_ARCH_PPC_def
  AUDIT_ARCH_PPC64_def AUDIT_ARCH_PPC64LE_def AUDIT_ARCH_RISCV64_def AUDIT_ARCH_SPARC_def
  AUDIT_ARCH_SPARC64_def AUDIT_ARCH_MIPS_def AUDIT_ARCH_MIPSEL_def AUDIT_ARCH_MIPS64_def
  AUDIT_ARCH_MIPS64N32_def AUDIT_ARCH_MIPSEL64_def AUDIT_ARCH_MIPSEL64N32_def
  AUDIT_ARCH_LOONGARCH64_def

text \<open>
  Claim C7, as amended. Classification looks only at the first row of the request's
  arch. A request whose arch has no row, or whose \<^verbatim>\<open>nr\<close> equals none of the seven
  slots of that row, is classified \<^verbatim>\<open>-EINVAL\<close>, and the dispatcher answers it with the
  error \<^verbatim>\<open>-EINVAL\<close> without running an emulator. A slot is compared with \<^verbatim>\<open>nr\<close> by
  plain equality, so a slot that holds \<^verbatim>\<open>-1\<close> is never the matching slot of a request
  whose \<^verbatim>\<open>nr\<close> is not \<^verbatim>\<open>-1\<close>.
\<close>

theorem classifier_unknown_and_absent:
  fixes tbl :: "incus_seccomp_data_arch list" and d :: seccomp_data
  defines "row \<equiv> find (\<lambda>entry. row_arch entry = arch d) tbl"
  defines "k \<equiv> seccomp_notify_scan tbl d"
  shows "(row = None \<longrightarrow> k = - EINVAL)
    \<and> (\<forall>entry. row = Some entry \<and> nr_mknod entry \<noteq> nr d \<and> nr_mknodat entry \<noteq> nr d
          \<and> nr_setxattr entry \<noteq> nr d \<and> nr_mount entry \<noteq> nr d \<and> nr_bpf entry \<noteq> nr d
          \<and> nr_sched_setscheduler entry \<noteq> nr d \<and> nr_sysinfo entry \<noteq> nr d
          \<longrightarrow> k = - EINVAL)
    \<and> (\<forall>entry. row = Some entry \<and> nr d \<noteq> - 1 \<longrightarrow>
          (k = INCUS_SECCOMP_NOTIFY_MKNOD \<longrightarrow> nr_mknod entry \<noteq> - 1)
        \<and> (k = INCUS_SECCOMP_NOTIFY_MKNODAT \<longrightarrow> nr_mknodat entry \<noteq> - 1)
        \<and> (k = INCUS_SECCOMP_NOTIFY_SETXATTR \<longrightarrow> nr_setxattr entry \<noteq> - 1)
        \<and> (k = INCUS_SECCOMP_NOTIFY_MOUNT \<longrightarrow> nr_mount entry \<noteq> - 1)
        \<and> (k = INCUS_SECCOMP_NOTIFY_BPF \<longrightarrow> nr_bpf entry \<noteq> - 1)
        \<and> (k = INCUS_SECCOMP_NOTIFY_SCHED_SETSCHEDULER \<longrightarrow> nr_sched_setscheduler entry \<noteq> - 1)
        \<and> (k = INCUS_SECCOMP_NOTIFY_SYSINFO \<longrightarrow> nr_sysinfo entry \<noteq> - 1))
    \<and> (\<forall>srv c siov. srv_table srv = tbl \<and> req_data (req siov) = d \<and> k = - EINVAL \<longrightarrow>
          HandleValid srv (\<lambda>pid. Some c) siov =
            Replied \<lparr>resp_id = req_id (req siov), resp_val = 0, resp_error = - EINVAL,
                     resp_flags = req_flags (req siov)\<rparr>
              (Some \<lparr>ret = - EINVAL,
                     out_resp = \<lparr>resp_id = req_id (req siov), resp_val = 0, resp_error = 0,
                                 resp_flags = req_flags (req siov)\<rparr>,
                     bridge = [], devices = [], writes = []\<rparr>))"
proof -
  have none: "row = None \<longrightarrow> k = - EINVAL"
    by (simp add: k_def row_def scan_first_row_of_arch)
  have no_slot: "\<forall>entry. row = Some entry \<and> nr_mknod entry \<noteq> nr d \<and> nr_mknodat entry \<noteq> nr d
          \<and> nr_setxattr entry \<noteq> nr d \<and> nr_mount entry \<noteq> nr d \<and> nr_bpf entry \<noteq> nr d
          \<and> nr_sched_setscheduler entry \<noteq> nr d \<and> nr_sysinfo entry \<noteq> nr d
          \<longrightarrow> k = - EINVAL"
    by (simp add: k_def row_def scan_first_row_of_arch)
  have absent: "\<forall>entry. row = Some entry \<and> nr d \<noteq> - 1 \<longrightarrow>
          (k = INCUS_SECCOMP_NOTIFY_MKNOD \<longrightarrow> nr_mknod entry \<noteq> - 1)
        \<and> (k = INCUS_SECCOMP_NOTIFY_MKNODAT \<longrightarrow> nr_mknodat entry \<noteq> - 1)
        \<and> (k = INCUS_SECCOMP_NOTIFY_SETXATTR \<longrightarrow> nr_setxattr entry \<noteq> - 1)
        \<and> (k = INCUS_SECCOMP_NOTIFY_MOUNT \<longrightarrow> nr_mount entry \<noteq> - 1)
        \<and> (k = INCUS_SECCOMP_NOTIFY_BPF \<longrightarrow> nr_bpf entry \<noteq> - 1)
        \<and> (k = INCUS_SECCOMP_NOTIFY_SCHED_SETSCHEDULER \<longrightarrow> nr_sched_setscheduler entry \<noteq> - 1)
        \<and> (k = INCUS_SECCOMP_NOTIFY_SYSINFO \<longrightarrow> nr_sysinfo entry \<noteq> - 1)"
    unfolding k_def row_def scan_first_row_of_arch
    by (auto simp add: eval_table EINVAL_def split: if_splits)
  have answered: "\<forall>srv c siov. srv_table srv = tbl \<and> req_data (req siov) = d \<and> k = - EINVAL \<longrightarrow>
          HandleValid srv (\<lambda>pid. Some c) siov =
            Replied \<lparr>resp_id = req_id (req siov), resp_val = 0, resp_error = - EINVAL,
                     resp_flags = req_flags (req siov)\<rparr>
              (Some \<lparr>ret = - EINVAL,
                     out_resp = \<lparr>resp_id = req_id (req siov), resp_val = 0, resp_error = 0,
                                 resp_flags = req_flags (req siov)\<rparr>,
                     bridge = [], devices = [], writes = []\<rparr>)"
    unfolding k_def by (auto intro: unknown_is_answered_EINVAL)
  from none no_slot absent answered show ?thesis by blast
qed

theorem classifier_unknown_witness:
  "seccomp_notify_scan seccomp_notify_syscall_table unknown_nr = - EINVAL
   \<and> HandleValid strict_server (\<lambda>pid. Some sample_instance) (frame_of unknown_nr) =
       Replied \<lparr>resp_id = 7, resp_val = 0, resp_error = - 22, resp_flags = 0\<rparr>
         (Some \<lparr>ret = - 22,
                out_resp = \<lparr>resp_id = 7, resp_val = 0, resp_error = 0, resp_flags = 0\<rparr>,
                bridge = [], devices = [], writes = []\<rparr>)"
proof -
  note spec = classifier_unknown_and_absent
    [where tbl = seccomp_notify_syscall_table and d = unknown_nr]
  have row: "find (\<lambda>entry. row_arch entry = arch unknown_nr) seccomp_notify_syscall_table
             = Some (mk_row AUDIT_ARCH_X86_64 133 259 188 165 321 144 99)"
    by (simp add: seccomp_notify_syscall_table_def mk_row_def unknown_nr_def syscall_data_def
        eval_arch)
  have unknown: "seccomp_notify_scan seccomp_notify_syscall_table unknown_nr = - EINVAL"
    using spec [THEN conjunct2, THEN conjunct1, rule_format,
                where entry = "mk_row AUDIT_ARCH_X86_64 133 259 188 165 321 144 99"] row
    by (simp add: mk_row_def unknown_nr_def syscall_data_def)
  have "HandleValid strict_server (\<lambda>pid. Some sample_instance) (frame_of unknown_nr) =
       Replied \<lparr>resp_id = req_id (req (frame_of unknown_nr)), resp_val = 0,
                resp_error = - EINVAL, resp_flags = req_flags (req (frame_of unknown_nr))\<rparr>
         (Some \<lparr>ret = - EINVAL,
                out_resp = \<lparr>resp_id = req_id (req (frame_of unknown_nr)), resp_val = 0,
                            resp_error = 0,
                            resp_flags = req_flags (req (frame_of unknown_nr))\<rparr>,
                bridge = [], devices = [], writes = []\<rparr>)"
    using spec [THEN conjunct2, THEN conjunct2, THEN conjunct2, rule_format,
                where srv = strict_server and siov = "frame_of unknown_nr"
                  and c = sample_instance] unknown
    by (simp add: strict_server_def frame_of_def)
  then show ?thesis
    using unknown by (simp add: frame_of_def EINVAL_def)
qed

text \<open>The claim as stated also covers a request whose \<^verbatim>\<open>nr\<close> is \<^verbatim>\<open>-1\<close>; there it
  fails: on aarch64 the slot of mknod holds \<^verbatim>\<open>-1\<close>, the request matches it and is
  dispatched to the mknod emulator.\<close>

theorem classifier_minus_one_counterexample:
  "find (\<lambda>entry. row_arch entry = arch aarch64_minus_one) seccomp_notify_syscall_table
     = Some (mk_row AUDIT_ARCH_AARCH64 (- 1) 33 5 40 280 119 179)
   \<and> nr_mknod (mk_row AUDIT_ARCH_AARCH64 (- 1) 33 5 40 280 119 179) = - 1
   \<and> nr aarch64_minus_one = - 1
   \<and> seccomp_notify_scan seccomp_notify_syscall_table aarch64_minus_one
       = INCUS_SECCOMP_NOTIFY_MKNOD
   \<and> INCUS_SECCOMP_NOTIFY_MKNOD \<noteq> - EINVAL
   \<and> handleSyscall strict_server sample_instance (frame_of aarch64_minus_one)
       = Returns (HandleMknodSyscall strict_state sample_host sample_instance
           ((frame_of aarch64_minus_one)
              \<lparr>resp := \<lparr>resp_id = 7, resp_val = 0, resp_error = 0, resp_flags = 0\<rparr>\<rparr>))"
  by (simp add: aarch64_minus_one_def
      syscall_data_def AUDIT_ARCH_AARCH64_def AUDIT_ARCH_I386_def eval_table EINVAL_def
      handleSyscall_def
      seccomp_notify_get_syscall_def strict_server_def frame_of_def)

subsection \<open>Frames that fail validation\<close>

text \<open>
  Claim C5, as amended. A frame that is too short, has a non-zero reserved field or
  carries a size different from the cached ones fails \<^verbatim>\<open>IsValidSeccompIovec\<close>; the
  receive loop hands it to \<^verbatim>\<open>HandleInvalid\<close>, which sends a message without any part
  and closes the descriptors received with the frame, and goes on to the next receive.
\<close>

theorem invalid_frame_empty_reply:
  assumes "bytes < SECCOMP_MSG_SIZE_MIN
           \<or> msg_reserved (msg siov) \<noteq> 0
           \<or> sz_seccomp_notif (msg_sizes (msg siov)) \<noteq> sz_seccomp_notif expected
           \<or> sz_seccomp_notif_resp (msg_sizes (msg siov)) \<noteq> sz_seccomp_notif_resp expected
           \<or> sz_seccomp_data (msg_sizes (msg siov)) \<noteq> sz_seccomp_data expected"
  shows "\<not> IsValidSeccompIovec expected siov bytes
    \<and> receive_loop expected (Frame bytes siov # later)
        = Go_HandleInvalid siov # receive_loop expected later
    \<and> HandleInvalid siov
        = [Sendmsg_empty,
           Close_fds (filter (\<lambda>fd. 0 \<le> fd) [memFd siov, procFd siov, notifyFd siov])]"
proof -
  have invalid: "\<not> IsValidSeccompIovec expected siov bytes"
    using assms by (auto simp add: IsValidSeccompIovec_def)
  then show ?thesis
    by (simp add: HandleInvalid_def PutSeccompIovec_def)
qed

theorem invalid_frame_witness:
  "receive_loop sample_sizes [Frame 10 (frame_of mknod_null)]
     = [Go_HandleInvalid (frame_of mknod_null)]
   \<and> HandleInvalid (frame_of mknod_null) = [Sendmsg_empty, Close_fds [11, 10, 12]]"
  using invalid_frame_empty_reply
    [of 10 "frame_of mknod_null" sample_sizes "[]"]
  by (simp add: SECCOMP_MSG_SIZE_MIN_def SECCOMP_PROXY_MSG_SIZE_def SECCOMP_NOTIFY_SIZE_def
      SECCOMP_RESPONSE_SIZE_def frame_of_def)

text \<open>The claim as stated also has the connection closed; it is not: a valid frame
  that follows an invalid one on the same connection is still received and handled, and
  neither the loop nor \<^verbatim>\<open>HandleInvalid\<close> closes the connection.\<close>

theorem invalid_frame_connection_counterexample:
  "receive_loop sample_sizes
     [Frame 10 (frame_of mknod_null), Frame 136 (frame_of mknod_sda)]
   = [Go_HandleInvalid (frame_of mknod_null), Go_HandleValid (frame_of mknod_sda)]
   \<and> Closed \<notin> set (receive_loop sample_sizes
        [Frame 10 (frame_of mknod_null), Frame 136 (frame_of mknod_sda)])
   \<and> Close_connection \<notin> set (HandleInvalid (frame_of mknod_null))"
  by (simp add: IsValidSeccompIovec_def SECCOMP_MSG_SIZE_MIN_def SECCOMP_PROXY_MSG_SIZE_def
      SECCOMP_NOTIFY_SIZE_def SECCOMP_RESPONSE_SIZE_def frame_of_def sample_sizes_def
      HandleInvalid_def PutSeccompIovec_def)

subsection \<open>The continue flag when the daemon cannot continue syscalls\<close>

lemma out_resp_doDeviceSyscall [simp]:
  "out_resp (doDeviceSyscall s h c args siov) = resp siov"
  by (simp add: doDeviceSyscall_def Let_def split_beta returns_def)

lemma strict_mknod_flags:
  "\<not> SeccompListenerContinue s \<Longrightarrow>
   resp_flags (out_resp (HandleMknodSyscall s h c siov)) = resp_flags (resp siov)"
  by (simp add: HandleMknodSyscall_def Let_def returns_def split: option.splits)

lemma strict_mknodat_flags:
  "\<not> SeccompListenerContinue s \<Longrightarrow>
   resp_flags (out_resp (HandleMknodatSyscall s h c siov)) = resp_flags (resp siov)"
  by (simp add: HandleMknodatSyscall_def Let_def returns_def split: option.splits)

lemma strict_setxattr_flags:
  "\<not> SeccompListenerContinue s \<Longrightarrow> HandleSetxattrSyscall s h c siov = Returns done \<Longrightarrow>
   resp_flags (out_resp done) = resp_flags (resp siov)"
  by (auto simp add: HandleSetxattrSyscall_def Let_def returns_def split_beta
      split: option.splits if_splits)

lemma strict_sched_flags:
  "\<not> SeccompListenerContinue s \<Longrightarrow>
   resp_flags (out_resp (HandleSchedSetschedulerSyscall s h c siov)) = resp_flags (resp siov)"
  by (simp add: HandleSchedSetschedulerSyscall_def Let_def returns_def split_beta
      split: option.splits)

text \<open>
  Claim C1, as amended. When \<^verbatim>\<open>SeccompListenerContinue\<close> is off, the mknod, mknodat,
  setxattr and sched_setscheduler emulators never set the continue flag: the flags of
  the response they return are the flags it had when they were called.
\<close>

theorem strict_emulators_never_continue:
  assumes "\<not> SeccompListenerContinue s"
  shows "resp_flags (out_resp (HandleMknodSyscall s h c siov)) = resp_flags (resp siov)
    \<and> resp_flags (out_resp (HandleMknodatSyscall s h c siov)) = resp_flags (resp siov)
    \<and> (\<forall>done. HandleSetxattrSyscall s h c siov = Returns done \<longrightarrow>
          resp_flags (out_resp done) = resp_flags (resp siov))
    \<and> resp_flags (out_resp (HandleSchedSetschedulerSyscall s h c siov)) = resp_flags (resp siov)"
  using assms
  by (simp add: strict_mknod_flags strict_mknodat_flags strict_setxattr_flags
      strict_sched_flags)

theorem strict_emulators_witness:
  "resp_flags (out_resp (HandleMknodSyscall strict_state sample_host sample_instance
      (frame_of mknod_sda))) = 0
   \<and> resp_flags (out_resp (HandleMknodatSyscall strict_state sample_host sample_instance
      (frame_of mknodat_fd5))) = 0
   \<and> resp_flags (out_resp (HandleSchedSetschedulerSyscall strict_state sample_host
      sample_instance (frame_of sched_negative_policy))) = 0"
  using strict_emulators_never_continue
    [of strict_state sample_host sample_instance "frame_of mknod_sda"]
    strict_emulators_never_continue
    [of strict_state sample_host sample_instance "frame_of mknodat_fd5"]
    strict_emulators_never_continue
    [of strict_state sample_host sample_instance "frame_of sched_negative_policy"]
  by (simp add: strict_state_def frame_of_def)

text \<open>The claim as stated also covers the mount and bpf emulators; they set the
  continue flag on every failure without looking at \<^verbatim>\<open>SeccompListenerContinue\<close>. Here
  a mount of a filesystem type that the instance does not allow is answered with the
  continue flag by a daemon that cannot continue syscalls.\<close>

theorem strict_mount_continue_counterexample:
  "\<not> SeccompListenerContinue (srv_state strict_server)
   \<and> HandleValid strict_server (\<lambda>pid. Some sample_instance) (frame_of mount_ext4) =
       Replied \<lparr>resp_id = 7, resp_val = 0, resp_error = 0,
                resp_flags = seccompUserNotifFlagContinue\<rparr>
         (Some \<lparr>ret = 0,
                out_resp = \<lparr>resp_id = 7, resp_val = 0, resp_error = 0,
                            resp_flags = seccompUserNotifFlagContinue\<rparr>,
                bridge = [], devices = [], writes = []\<rparr>)"
  by (simp add: eval_reply eval_frame eval_table eval_show eval_memory mount_ext4_def
      HandleMountSyscall_def mount_string_def MakePidFd_def MountSyscallValid_def
      SyscallInterceptMountFilter_def sample_packages_def cfg_def MountSyscallShift_def
      StorageTypeNone_def Let_def)

end
